theory Spec2Isabelle
  imports Complex_Main "HOL-Library.Word"
begin

section \<open>JavaScript values as far as lib/socket.js inspects them\<close>

text \<open>
  The session layer receives decoded JSON-like data (with binary attachments merged in as
  buffers) and looks at it through \<^verbatim>\<open>typeof\<close>, truthiness, \<^verbatim>\<open>Array.isArray\<close>,
  \<^verbatim>\<open>.length\<close>, indexing and property access. A number is kept as far as these
  operations can tell numbers apart: NaN, the infinities, and a finite value.
\<close>

type_synonym byte = "8 word"

datatype jsnum = JNaN | JInfinity bool | JFinite rat

datatype jsval =
    JUndefined
  | JNull
  | JBool bool
  | JNum jsnum
  | JStr string
  | JBuf "byte list"
  | JArr "jsval list"
  | JObj "(string \<times> jsval) list"

datatype jstype = T_undefined | T_object | T_boolean | T_number | T_string | T_function

fun typeof :: "jsval \<Rightarrow> jstype" where
  "typeof JUndefined = T_undefined"
| "typeof JNull = T_object"
| "typeof (JBool b) = T_boolean"
| "typeof (JNum n) = T_number"
| "typeof (JStr s) = T_string"
| "typeof (JBuf b) = T_object"
| "typeof (JArr xs) = T_object"
| "typeof (JObj ps) = T_object"

text \<open>Truthiness: \<^verbatim>\<open>undefined\<close>, \<^verbatim>\<open>null\<close>, \<^verbatim>\<open>false\<close>, \<^verbatim>\<open>0\<close>, \<^verbatim>\<open>NaN\<close> and \<^verbatim>\<open>""\<close> are falsy.\<close>

fun truthy :: "jsval \<Rightarrow> bool" where
  "truthy JUndefined = False"
| "truthy JNull = False"
| "truthy (JBool b) = b"
| "truthy (JNum JNaN) = False"
| "truthy (JNum (JInfinity b)) = True"
| "truthy (JNum (JFinite r)) = (r \<noteq> 0)"
| "truthy (JStr s) = (s \<noteq> [])"
| "truthy (JBuf b) = True"
| "truthy (JArr xs) = True"
| "truthy (JObj ps) = True"

text \<open>\<^verbatim>\<open>v == null\<close> holds for \<^verbatim>\<open>null\<close> and \<^verbatim>\<open>undefined\<close> only.\<close>

fun eq_null :: "jsval \<Rightarrow> bool" where
  "eq_null JUndefined = True"
| "eq_null JNull = True"
| "eq_null v = False"

fun isArray :: "jsval \<Rightarrow> bool" where
  "isArray (JArr xs) = True"
| "isArray v = False"

text \<open>The elements of an array; only applied where the value is known to be an array.\<close>

fun elems :: "jsval \<Rightarrow> jsval list" where
  "elems (JArr xs) = xs"
| "elems v = []"

text \<open>The characters of a string; only applied where \<^verbatim>\<open>typeof\<close> is \<^verbatim>\<open>'string'\<close>.\<close>

fun js_string :: "jsval \<Rightarrow> string" where
  "js_string (JStr s) = s"
| "js_string v = []"

text \<open>
  Property access \<^verbatim>\<open>v.key\<close> for the keys the source reads (\<^verbatim>\<open>message\<close>,
  \<^verbatim>\<open>code\<close>, \<^verbatim>\<open>type\<close>, \<^verbatim>\<open>pingInterval\<close>, \<^verbatim>\<open>pingTimeout\<close>): an object
  has the property or the read gives \<^verbatim>\<open>undefined\<close>; arrays, buffers and primitives
  have none of these keys. The first binding of a key in the association list is the
  property's value.
\<close>

fun js_get :: "jsval \<Rightarrow> string \<Rightarrow> jsval" where
  "js_get (JObj ps) k = (case map_of ps k of None \<Rightarrow> JUndefined | Some v \<Rightarrow> v)"
| "js_get v k = JUndefined"

section \<open>Errors\<close>

text \<open>
  \<^verbatim>\<open>new Error(msg)\<close> with the properties assigned to it afterwards, the
  \<^verbatim>\<open>TypeError\<close> of \<^verbatim>\<open>enforce\<close>, the \<^verbatim>\<open>AssertionError\<close> of \<^verbatim>\<open>assert\<close>
  (with the message passed, empty when none is), and a value thrown by an application
  handler.
\<close>

datatype exn =
    Error string "(string \<times> jsval) list"
  | TypeError string
  | AssertionError string
  | Thrown jsval

text \<open>Reading a property of a caught exception, as \<^verbatim>\<open>sendError\<close> does; a thrown
  \<^verbatim>\<open>null\<close> or \<^verbatim>\<open>undefined\<close> has no properties to read, and \<^verbatim>\<open>sendError\<close> tells
  them apart first.\<close>

fun exn_get :: "exn \<Rightarrow> string \<Rightarrow> jsval" where
  "exn_get (Error m ps) k =
     (if k = ''message'' then JStr m
      else case map_of ps k of None \<Rightarrow> JUndefined | Some v \<Rightarrow> v)"
| "exn_get (TypeError m) k = (if k = ''message'' then JStr m else JUndefined)"
| "exn_get (AssertionError m) k =
     (if k = ''message'' then JStr m
      else if k = ''code'' then JStr ''ERR_ASSERTION'' else JUndefined)"
| "exn_get (Thrown v) k = js_get v k"

text \<open>\<^verbatim>\<open>castCode\<close>, \<^verbatim>\<open>castMsg\<close>, \<^verbatim>\<open>castType\<close> (socket.js, lines 794 to 813).\<close>

definition castCode :: "jsval \<Rightarrow> jsval" where
  "castCode code =
     (if code \<noteq> JNull \<and> typeof code \<noteq> T_number \<and> typeof code \<noteq> T_string
      then JNull else code)"

definition castMsg :: "jsval \<Rightarrow> string" where
  "castMsg msg = (if typeof msg \<noteq> T_string then ''No message.'' else js_string msg)"

definition castType :: "jsval \<Rightarrow> jsval" where
  "castType type = (if typeof type \<noteq> T_string then JNull else type)"

text \<open>\<^verbatim>\<open>enforce(value, name, type)\<close>: the error thrown when \<^verbatim>\<open>value\<close> is falsy.\<close>

definition enforce_error :: "string \<Rightarrow> string \<Rightarrow> exn" where
  "enforce_error name type = TypeError ([CHR 0x27] @ name @ [CHR 0x27] @ '' must be a(n) '' @ type @ ''.'')"

section \<open>Frames, packets and the collaborators that are not part of lib/socket.js\<close>

datatype frame_type = OPEN | CLOSE | PING | PONG | MESSAGE | UPGRADE | NOOP | OtherFrame nat

text \<open>\<^verbatim>\<open>new Frame(type, data, binary)\<close>: the three fields the session reads.\<close>

record frame =
  f_type :: frame_type
  f_data :: jsval
  f_binary :: bool

datatype packet_type =
  CONNECT | DISCONNECT | EVENT | ACK | ERROR | BINARY_EVENT | BINARY_ACK | OtherPacket nat

text \<open>
  A packet: the fields \<^verbatim>\<open>type\<close>, \<^verbatim>\<open>id\<close>, \<^verbatim>\<open>attachments\<close>, \<^verbatim>\<open>buffers\<close> that
  the session reads and writes, and the encoded payload that only the codec touches.
\<close>

record packet =
  p_type :: packet_type
  p_id :: int
  attachments :: int
  buffers :: "jsval list"
  payload :: string

text \<open>What goes to \<^verbatim>\<open>ws.send\<close>: the raw bytes of a frame or its textual encoding.\<close>

datatype wire = Raw "byte list" | Text string

text \<open>
  The modules required by lib/socket.js whose code is not in this development are taken
  as parameters: the blacklist and the close-code table (a lookup of \<^verbatim>\<open>blacklist[name]\<close>
  is its truthiness; \<^verbatim>\<open>codes[code]\<close> is a string or missing), the packet codec, the
  frame encoders, JSON, and the exception Node's \<^verbatim>\<open>EventEmitter\<close> throws for an
  \<^verbatim>\<open>'error'\<close> event that nobody listens to. \<open>Packet_new\<close> is the packet that
  \<^verbatim>\<open>new Packet()\<close> builds; the constructor's argument and the assignments that follow
  it in the source set \<open>type\<close> and \<open>id\<close>. \<^verbatim>\<open>setData\<close> is only called on arrays and
  objects built by the session and is taken to return; \<^verbatim>\<open>fromString\<close>, \<^verbatim>\<open>getData\<close>
  and \<^verbatim>\<open>JSON.parse\<close> may throw.
\<close>

record env =
  blacklist :: "string \<Rightarrow> bool"
  codes :: "int \<Rightarrow> string option"
  Packet_new :: packet
  Packet_fromString :: "jsval \<Rightarrow> exn + packet"
  Packet_toString :: "packet \<Rightarrow> string"
  Packet_getData :: "packet \<Rightarrow> exn + jsval"
  Packet_setData :: "packet \<Rightarrow> jsval \<Rightarrow> packet"
  Frame_toRaw :: "frame \<Rightarrow> byte list"
  Frame_toString :: "frame \<Rightarrow> string"
  JSON_parse :: "jsval \<Rightarrow> exn + jsval"
  JSON_stringify :: "jsval \<Rightarrow> string"
  unhandled_error :: "jsval \<Rightarrow> exn"

section \<open>The session\<close>

text \<open>
  An application handler (a listener or a hook) is called with the arguments and returns
  a value (\<open>Inr\<close>) or throws one (\<open>Inl\<close>). An awaited hook is run to completion within
  the packet that calls it.
\<close>

type_synonym handler = "jsval list \<Rightarrow> jsval + jsval"

text \<open>A transport callback: not yet set, the session's own method, or the no-op of \<^verbatim>\<open>close()\<close>.\<close>

datatype callback = Unset | Session | Noop

record websocket =
  ws_url :: string
  binaryType :: string
  onopen :: callback
  onmessage :: callback
  onerror :: callback
  onclose :: callback

record job =
  j_time :: int

text \<open>
  Calls that leave the session are recorded in order: the transport's constructor,
  \<^verbatim>\<open>send\<close> and \<^verbatim>\<open>close\<close>; an event of the session's own (inherited) emitter that
  is handed to its listeners, which are application code; the \<^verbatim>\<open>resolve\<close> and
  \<^verbatim>\<open>reject\<close> of a job's promise, each with the keys that the job table holds at the
  moment of the call; and \<^verbatim>\<open>emit\<close> on the application bus.
\<close>

datatype effect =
    WsNew string
  | WsSend wire
  | WsClose
  | Emit string "exn option"
  | Resolve int job jsval "int list"
  | Reject int job exn "int list"
  | EventsEmit "jsval list"

text \<open>
  The fields of \<^verbatim>\<open>Socket\<close> that the modelled methods read or write. \<open>jobs\<close> is a
  JavaScript \<^verbatim>\<open>Map\<close>, iterated in insertion order: an association list. \<open>timer\<close> tells
  whether the interval handle is set. \<open>listeners\<close> counts, for each event name, the
  listeners registered on the session itself through the \<^verbatim>\<open>on\<close> it inherits from
  \<^verbatim>\<open>EventEmitter\<close>. \<open>out\<close> is the record of outgoing calls.
\<close>

record socket =
  ws :: "websocket option"
  url :: string
  inbound :: bool
  connected :: bool
  challenge :: bool
  destroyed :: bool
  time :: int
  sequence :: int
  pingInterval :: int
  pingTimeout :: int
  lastPing :: int
  binary :: bool
  packet :: "packet option"
  timer :: bool
  jobs :: "(int \<times> job) list"
  hooks :: "string \<Rightarrow> handler option"
  events :: "string \<Rightarrow> handler list"
  listeners :: "string \<Rightarrow> nat"
  buffer :: "frame list"
  out :: "effect list"

text \<open>A method either returns with the new state or throws, leaving the state it reached.\<close>

type_synonym result = "(exn \<times> socket) + socket"

definition and_then :: "result \<Rightarrow> (socket \<Rightarrow> result) \<Rightarrow> result" where
  "and_then r f = (case r of Inl e \<Rightarrow> Inl e | Inr s \<Rightarrow> f s)"

definition do_effect :: "effect \<Rightarrow> socket \<Rightarrow> socket" where
  "do_effect e s = s\<lparr>out := out s @ [e]\<rparr>"

text \<open>
  \<^verbatim>\<open>this.emit(name, arg)\<close> on the session. Node's emitter throws when \<^verbatim>\<open>'error'\<close> is
  emitted and nobody listens: the argument itself when it is an Error, an error that wraps
  it otherwise. A new session has no listener; \<^verbatim>\<open>destroy()\<close> installs a no-op one for the
  time after it. In every other case the event is handed to the listeners and recorded;
  they are the application's and are taken to return without calling back into the
  session.
\<close>

fun unhandled :: "env \<Rightarrow> exn option \<Rightarrow> exn" where
  "unhandled E None = unhandled_error E JUndefined"
| "unhandled E (Some (Thrown v)) = unhandled_error E v"
| "unhandled E (Some e) = e"

definition emit :: "env \<Rightarrow> string \<Rightarrow> exn option \<Rightarrow> socket \<Rightarrow> result" where
  "emit E name arg s =
     (if name = ''error'' \<and> listeners s ''error'' = 0 then Inl (unhandled E arg, s)
      else Inr (do_effect (Emit name arg) s))"

text \<open>\<^verbatim>\<open>on(name, listener)\<close> and \<^verbatim>\<open>removeAllListeners()\<close> of the inherited emitter.\<close>

definition on :: "string \<Rightarrow> socket \<Rightarrow> socket" where
  "on name s = s\<lparr>listeners := (listeners s)(name := Suc (listeners s name))\<rparr>"

definition removeAllListeners :: "socket \<Rightarrow> socket" where
  "removeAllListeners s = s\<lparr>listeners := (\<lambda>name. 0)\<rparr>"

text \<open>\<^verbatim>\<open>error(msg)\<close>\<close>

definition error :: "env \<Rightarrow> string \<Rightarrow> socket \<Rightarrow> result" where
  "error E msg s = emit E ''error'' (Some (Error msg [])) s"

subsection \<open>Jobs\<close>

definition jobs_get :: "socket \<Rightarrow> int \<Rightarrow> job option" where
  "jobs_get s i = map_of (jobs s) i"

definition jobs_delete :: "int \<Rightarrow> socket \<Rightarrow> socket" where
  "jobs_delete i s = s\<lparr>jobs := filter (\<lambda>(k, j). k \<noteq> i) (jobs s)\<rparr>"

text \<open>\<^verbatim>\<open>jobs.set(id, job)\<close>: a new key goes to the end, an old key keeps its place.\<close>

fun alist_set :: "int \<Rightarrow> job \<Rightarrow> (int \<times> job) list \<Rightarrow> (int \<times> job) list" where
  "alist_set i j [] = [(i, j)]"
| "alist_set i j ((k, v) # rest) = (if k = i then (k, j) # rest else (k, v) # alist_set i j rest)"

definition jobs_set :: "int \<Rightarrow> job \<Rightarrow> socket \<Rightarrow> socket" where
  "jobs_set i j s = s\<lparr>jobs := alist_set i j (jobs s)\<rparr>"

text \<open>\<^verbatim>\<open>job.resolve(data)\<close> and \<^verbatim>\<open>job.reject(err)\<close> for the job taken from key \<open>i\<close>.\<close>

definition job_resolve :: "int \<Rightarrow> job \<Rightarrow> jsval \<Rightarrow> socket \<Rightarrow> socket" where
  "job_resolve i j d s = do_effect (Resolve i j d (map fst (jobs s))) s"

definition job_reject :: "int \<Rightarrow> job \<Rightarrow> exn \<Rightarrow> socket \<Rightarrow> socket" where
  "job_reject i j e s = do_effect (Reject i j e (map fst (jobs s))) s"

subsection \<open>Sending (lines 268 to 280 and 475 to 512)\<close>

definition send :: "env \<Rightarrow> frame \<Rightarrow> socket \<Rightarrow> result" where
  "send E fr s =
     (if \<not> connected s then Inr (s\<lparr>buffer := buffer s @ [fr]\<rparr>)
      else case ws s of
        None \<Rightarrow> Inl (AssertionError [], s)
      | Some w \<Rightarrow>
          if f_binary fr \<and> binary s then Inr (do_effect (WsSend (Raw (Frame_toRaw E fr))) s)
          else Inr (do_effect (WsSend (Text (Frame_toString E fr))) s))"

definition sendFrame :: "env \<Rightarrow> frame_type \<Rightarrow> jsval \<Rightarrow> bool \<Rightarrow> socket \<Rightarrow> result" where
  "sendFrame E t d b s = send E \<lparr>f_type = t, f_data = d, f_binary = b\<rparr> s"


definition sendClose :: "env \<Rightarrow> jsval \<Rightarrow> socket \<Rightarrow> result" where
  "sendClose E d s = sendFrame E CLOSE d False s"

definition sendPing :: "env \<Rightarrow> jsval \<Rightarrow> socket \<Rightarrow> result" where
  "sendPing E d s = sendFrame E PING d False s"

definition sendPong :: "env \<Rightarrow> jsval \<Rightarrow> socket \<Rightarrow> result" where
  "sendPong E d s = sendFrame E PONG d False s"

definition sendMessage :: "env \<Rightarrow> jsval \<Rightarrow> socket \<Rightarrow> result" where
  "sendMessage E d s = sendFrame E MESSAGE d False s"

definition sendBinary :: "env \<Rightarrow> jsval \<Rightarrow> socket \<Rightarrow> result" where
  "sendBinary E d s = sendFrame E MESSAGE d True s"

definition jsint :: "int \<Rightarrow> jsval" where
  "jsint i = JNum (JFinite (of_int i))"


text \<open>The loop of \<^verbatim>\<open>sendPacket\<close> over \<^verbatim>\<open>packet.buffers\<close>.\<close>

fun sendBinary_each :: "env \<Rightarrow> jsval list \<Rightarrow> socket \<Rightarrow> result" where
  "sendBinary_each E [] s = Inr s"
| "sendBinary_each E (d # ds) s = and_then (sendBinary E d s) (sendBinary_each E ds)"

definition sendPacket :: "env \<Rightarrow> packet \<Rightarrow> socket \<Rightarrow> result" where
  "sendPacket E p s =
     and_then (sendMessage E (JStr (Packet_toString E p)) s) (sendBinary_each E (buffers p))"


definition sendDisconnect :: "env \<Rightarrow> socket \<Rightarrow> result" where
  "sendDisconnect E s = sendPacket E ((Packet_new E)\<lparr>p_type := DISCONNECT\<rparr>) s"

definition sendEvent :: "env \<Rightarrow> jsval \<Rightarrow> socket \<Rightarrow> result" where
  "sendEvent E d s =
     sendPacket E (Packet_setData E ((Packet_new E)\<lparr>p_type := EVENT\<rparr>) d) s"

definition sendCall :: "env \<Rightarrow> int \<Rightarrow> jsval \<Rightarrow> socket \<Rightarrow> result" where
  "sendCall E i d s =
     sendPacket E (Packet_setData E ((Packet_new E)\<lparr>p_type := EVENT, p_id := i\<rparr>) d) s"

definition sendAck :: "env \<Rightarrow> int \<Rightarrow> jsval \<Rightarrow> socket \<Rightarrow> result" where
  "sendAck E i d s =
     sendPacket E (Packet_setData E ((Packet_new E)\<lparr>p_type := ACK, p_id := i\<rparr>) (JArr [JNull, d])) s"

definition error_object :: "exn \<Rightarrow> jsval" where
  "error_object err = JObj
     [(''message'', JStr (castMsg (exn_get err ''message''))),
      (''code'', castCode (exn_get err ''code'')),
      (''type'', castType (exn_get err ''type''))]"

text \<open>
  \<^verbatim>\<open>sendError(id, err)\<close>. Its first statement reads \<^verbatim>\<open>err.message\<close>; when a
  handler threw \<^verbatim>\<open>null\<close> or \<^verbatim>\<open>undefined\<close> that read throws a \<^verbatim>\<open>TypeError\<close>.
\<close>

fun nullish :: "exn \<Rightarrow> string option" where
  "nullish (Thrown JNull) = Some ''null''"
| "nullish (Thrown JUndefined) = Some ''undefined''"
| "nullish e = None"

definition sendError :: "env \<Rightarrow> int \<Rightarrow> exn \<Rightarrow> socket \<Rightarrow> result" where
  "sendError E i err s =
     (case nullish err of
        Some n \<Rightarrow>
          Inl (TypeError (''Cannot read properties of '' @ n @ '' (reading '' @ [CHR 0x27]
                 @ ''message'' @ [CHR 0x27] @ '')''), s)
      | None \<Rightarrow>
          if i = -1
          then sendPacket E (Packet_setData E ((Packet_new E)\<lparr>p_type := ERROR\<rparr>) (error_object err)) s
          else sendPacket E (Packet_setData E ((Packet_new E)\<lparr>p_type := ACK, p_id := i\<rparr>)
                 (JArr [error_object err])) s)"

subsection \<open>Teardown (lines 245 to 299 and 355 to 369)\<close>

text \<open>
  \<^verbatim>\<open>Date.now()\<close> is the argument \<open>now\<close> of every method that reads the clock; the
  reads within one synchronous call see the same value.
\<close>

text \<open>The loop of \<^verbatim>\<open>close()\<close> over the job table.\<close>

fun reject_each :: "(int \<times> job) list \<Rightarrow> socket \<Rightarrow> socket" where
  "reject_each [] s = s"
| "reject_each ((i, j) # rest) s =
     reject_each rest (job_reject i j (Error ''Job timed out.'' []) (jobs_delete i s))"

definition close :: "int \<Rightarrow> socket \<Rightarrow> socket" where
  "close now s =
     (let s1 = s\<lparr>time := now, packet := None, connected := False, challenge := False,
                 sequence := 0, lastPing := 0\<rparr>;
          s2 = reject_each (jobs s1) s1
      in case ws s2 of
           None \<Rightarrow> s2
         | Some w \<Rightarrow>
             do_effect WsClose
               (s2\<lparr>ws := Some (w\<lparr>onopen := Noop, onmessage := Noop, onerror := Noop,
                                 onclose := Noop\<rparr>)\<rparr>))"

definition stop :: "socket \<Rightarrow> socket" where
  "stop s = (if timer s then s\<lparr>timer := False\<rparr> else s)"

definition destroy :: "env \<Rightarrow> int \<Rightarrow> socket \<Rightarrow> result" where
  "destroy E now s =
     (if destroyed s then Inr s
      else let s1 = s\<lparr>destroyed := True, buffer := []\<rparr>;
               s2 = close now s1;
               s3 = stop s2
           in and_then (emit E ''close'' None s3)
                (\<lambda>s4. Inr (on ''error'' (removeAllListeners s4))))"

definition bind :: "socket \<Rightarrow> result" where
  "bind s =
     (case ws s of
        None \<Rightarrow> Inl (AssertionError [], s)
      | Some w \<Rightarrow>
          Inr (s\<lparr>ws := Some (w\<lparr>binaryType := ''arraybuffer'', onopen := Session,
                                onmessage := Session, onerror := Session, onclose := Session\<rparr>)\<rparr>))"

definition new_WebSocket :: "string \<Rightarrow> websocket" where
  "new_WebSocket u =
     \<lparr>ws_url = u, binaryType = [], onopen = Unset, onmessage = Unset, onerror = Unset,
      onclose = Unset\<rparr>"

definition reconnect :: "int \<Rightarrow> socket \<Rightarrow> result" where
  "reconnect now s =
     (let s1 = close now s;
          s2 = (do_effect (WsNew (url s1)) s1)\<lparr>ws := Some (new_WebSocket (url s1))\<rparr>
      in bind s2)"

subsection \<open>Transport events (lines 165 to 243)\<close>

text \<open>The loop of \<^verbatim>\<open>onOpen\<close> over \<^verbatim>\<open>this.buffer\<close>; it runs with \<open>connected\<close> set, so
  \<^verbatim>\<open>send\<close> does not touch the array it walks.\<close>

fun send_each :: "env \<Rightarrow> frame list \<Rightarrow> socket \<Rightarrow> result" where
  "send_each E [] s = Inr s"
| "send_each E (fr # frs) s = and_then (send E fr s) (send_each E frs)"






text \<open>\<^verbatim>\<open>onError(event)\<close>, with \<^verbatim>\<open>event.message\<close> a string.\<close>

definition onError :: "env \<Rightarrow> int \<Rightarrow> string \<Rightarrow> socket \<Rightarrow> result" where
  "onError E now message s =
     and_then (emit E ''error'' (Some (Error message [])) s)
       (\<lambda>s1. if inbound s1 then destroy E now s1 else Inr (close now s1))"

text \<open>
  \<^verbatim>\<open>onClose(event)\<close>, with \<^verbatim>\<open>event.code\<close> an integer and \<^verbatim>\<open>event.reason\<close> a
  string, as the WebSocket interface gives them.
\<close>

definition onClose :: "env \<Rightarrow> int \<Rightarrow> int \<Rightarrow> string \<Rightarrow> socket \<Rightarrow> result" where
  "onClose E now ev_code ev_reason s =
     (if ev_code = 1000 \<or> ev_code = 1001
      then and_then (if \<not> connected s
                     then emit E ''error'' (Some (Error ''Could not connect.'' [])) s
                     else Inr s)
             (\<lambda>s1. if inbound s1 then destroy E now s1 else Inr (close now s1))
      else let code = (case codes E ev_code of
                         None \<Rightarrow> ''UNKNOWN_CODE''
                       | Some c \<Rightarrow> if c = [] then ''UNKNOWN_CODE'' else c);
               reason = (if ev_reason = [] then ''Unknown reason'' else ev_reason);
               msg = ''Websocket Closed: '' @ reason @ '' (code='' @ code @ '').'';
               err = Error msg [(''reason'', JStr ev_reason), (''code'', jsint ev_code)]
           in and_then (emit E ''error'' (Some err) s)
                (\<lambda>s1. if inbound s1 then destroy E now s1 else Inr (close now s1)))"

subsection \<open>The liveness tick (lines 301 to 349)\<close>

text \<open>The loop of \<^verbatim>\<open>stall()\<close> over the job table.\<close>

fun expire_each :: "int \<Rightarrow> (int \<times> job) list \<Rightarrow> socket \<Rightarrow> socket" where
  "expire_each now [] s = s"
| "expire_each now ((i, j) # rest) s =
     expire_each now rest
       (if now - j_time j > 600000
        then job_reject i j (Error ''Job timed out.'' []) (jobs_delete i s)
        else s)"

definition stall :: "env \<Rightarrow> int \<Rightarrow> socket \<Rightarrow> result" where
  "stall E now s =
     (case ws s of
        None \<Rightarrow> Inl (AssertionError [], s)
      | Some w \<Rightarrow>
          if \<not> connected s then
            (if now - time s > 10000
             then and_then (error E ''Timed out waiting for connection.'' s)
                    (\<lambda>s1. if inbound s1 then destroy E now s1 else reconnect now s1)
             else Inr s)
          else
            let s1 = expire_each now (jobs s) s
            in if \<not> challenge s1
               then sendPing E JUndefined (s1\<lparr>challenge := True, lastPing := now\<rparr>)
               else if now - lastPing s1 > pingTimeout s1
               then and_then (error E ''Connection is stalling (ping).'' s1)
                      (\<lambda>s2. if inbound s2 then destroy E now s2 else Inr (close now s2))
               else Inr s1)"

subsection \<open>Packets (lines 518 to 654)\<close>

text \<open>A number in a template string: decimal digits, with a sign when negative.\<close>

fun show_nat :: "nat \<Rightarrow> string" where
  "show_nat n =
     (if n < 10 then [''0123456789'' ! n]
      else show_nat (n div 10) @ [''0123456789'' ! (n mod 10)])"

definition show_int :: "int \<Rightarrow> string" where
  "show_int i = (if i < 0 then ''-'' @ show_nat (nat (- i)) else show_nat (nat i))"

definition job_not_found :: "int \<Rightarrow> exn" where
  "job_not_found i = Error (''Job not found for '' @ show_int i @ ''.'') []"

definition handleAck :: "int \<Rightarrow> jsval \<Rightarrow> socket \<Rightarrow> result" where
  "handleAck i d s =
     (case jobs_get s i of
        None \<Rightarrow> Inl (job_not_found i, s)
      | Some j \<Rightarrow> Inr (job_resolve i j d (jobs_delete i s)))"

text \<open>The error built twice in \<^verbatim>\<open>handleError\<close>: \<^verbatim>\<open>new Error(msg)\<close> with
  \<^verbatim>\<open>e.code\<close> and \<^verbatim>\<open>e.type\<close> assigned.\<close>

definition remote_error :: "string \<Rightarrow> jsval \<Rightarrow> jsval \<Rightarrow> exn" where
  "remote_error msg code type = Error msg [(''code'', code), (''type'', type)]"

definition handleError :: "env \<Rightarrow> int \<Rightarrow> jsval \<Rightarrow> socket \<Rightarrow> result" where
  "handleError E i err s =
     (let msg = castMsg (js_get err ''message'');
          code = castCode (js_get err ''code'');
          type = castType (js_get err ''type'')
      in if i = -1 then emit E ''error'' (Some (remote_error msg code type)) s
         else case jobs_get s i of
                None \<Rightarrow> Inl (job_not_found i, s)
              | Some j \<Rightarrow>
                  Inr (job_reject i j (remote_error msg code type) (jobs_delete i s)))"

text \<open>
  \<^verbatim>\<open>this.events.emit(...args)\<close>: the listeners of the name run in the order they were
  added, and the first one that throws ends the call with its exception. Node throws by
  itself when the name is \<^verbatim>\<open>'error'\<close> and nobody listens.
\<close>

fun run_listeners :: "handler list \<Rightarrow> jsval list \<Rightarrow> exn option" where
  "run_listeners [] a = None"
| "run_listeners (h # hs) a =
     (case h a of Inl e \<Rightarrow> Some (Thrown e) | Inr r \<Rightarrow> run_listeners hs a)"

definition events_emit :: "env \<Rightarrow> jsval list \<Rightarrow> socket \<Rightarrow> exn option \<times> socket" where
  "events_emit E args s =
     (let name = js_string (hd args);
          s1 = do_effect (EventsEmit args) s
      in if name = ''error'' \<and> events s name = []
         then (Some (unhandled_error E (if length args > 1 then args ! 1 else JUndefined)), s1)
         else (run_listeners (events s name) (tl args), s1))"

text \<open>\<^verbatim>\<open>handleEvent(args)\<close>; \<open>args\<close> is not empty and starts with a string.\<close>

definition blacklisted_error :: "string \<Rightarrow> exn" where
  "blacklisted_error event = Error (''Cannot emit blacklisted event: '' @ event @ ''.'') []"

definition handleEvent :: "env \<Rightarrow> jsval list \<Rightarrow> socket \<Rightarrow> result" where
  "handleEvent E args s =
     (let event = js_string (hd args)
      in if blacklist E event then sendError E (-1) (blacklisted_error event) s
         else case events_emit E args s of
                (None, s1) \<Rightarrow> Inr s1
              | (Some e, s1) \<Rightarrow> sendError E (-1) e s1)"

text \<open>\<^verbatim>\<open>handleCall(id, args)\<close>; \<open>args\<close> is not empty and starts with a string.\<close>

definition handleCall :: "env \<Rightarrow> int \<Rightarrow> jsval list \<Rightarrow> socket \<Rightarrow> result" where
  "handleCall E i args s =
     (let event = js_string (hd args);
          arg = tl args
      in case hooks s event of
           None \<Rightarrow> Inl (Error (''Call not found: '' @ event @ ''.'') [], s)
         | Some handler \<Rightarrow>
             (case handler arg of
                Inl e \<Rightarrow> sendError E i (Thrown e) s
              | Inr r \<Rightarrow> sendAck E i (if eq_null r then JNull else r) s))"

definition handleConnect :: "socket \<Rightarrow> result" where
  "handleConnect s = Inr s"

definition handleDisconnect :: "socket \<Rightarrow> result" where
  "handleDisconnect s = Inr s"

definition handlePacket :: "env \<Rightarrow> packet \<Rightarrow> socket \<Rightarrow> result" where
  "handlePacket E p s =
     (if p_type p = CONNECT then handleConnect s
      else if p_type p = DISCONNECT then handleDisconnect s
      else if p_type p = EVENT \<or> p_type p = BINARY_EVENT then
        (case Packet_getData E p of
           Inl e \<Rightarrow> Inl (e, s)
         | Inr args \<Rightarrow>
             if \<not> isArray args then Inl (enforce_error ''args'' ''array'', s)
             else if \<not> length (elems args) > 0 then Inl (enforce_error ''args'' ''array'', s)
             else if typeof (elems args ! 0) \<noteq> T_string
             then Inl (enforce_error ''event'' ''string'', s)
             else if p_id p \<noteq> -1 then handleCall E (p_id p) (elems args) s
             else handleEvent E (elems args) s)
      else if p_type p = ACK \<or> p_type p = BINARY_ACK then
        (if \<not> p_id p \<noteq> -1 then Inl (enforce_error ''id'' ''uint32'', s)
         else case Packet_getData E p of
           Inl e \<Rightarrow> Inl (e, s)
         | Inr json \<Rightarrow>
             if \<not> (eq_null json \<or> isArray json) then Inl (enforce_error ''args'' ''array'', s)
             else
               let err = (if truthy json \<and> length (elems json) > 0 then elems json ! 0 else JNull);
                   result = (if truthy json \<and> length (elems json) > 1 then elems json ! 1 else JNull);
                   result = (if eq_null result then JNull else result)
               in if truthy err
                  then (if \<not> typeof err = T_object then Inl (enforce_error ''error'' ''object'', s)
                        else handleError E (p_id p) err s)
                  else handleAck (p_id p) result s)
      else if p_type p = ERROR then
        (case Packet_getData E p of
           Inl e \<Rightarrow> Inl (e, s)
         | Inr err \<Rightarrow>
             if \<not> (truthy err \<and> typeof err = T_object) then Inl (enforce_error ''error'' ''object'', s)
             else handleError E (-1) err s)
      else Inl (Error ''Unknown packet.'' [], s))"

subsection \<open>Frames (lines 375 to 473)\<close>

text \<open>\<^verbatim>\<open>(x >>> 0) === x\<close>: a number that is an integer from 0 to \<open>2^32 - 1\<close>.\<close>

fun is_uint32 :: "jsval \<Rightarrow> bool" where
  "is_uint32 (JNum (JFinite r)) = (of_int \<lfloor>r\<rfloor> = r \<and> 0 \<le> r \<and> r < 2 ^ 32)"
| "is_uint32 v = False"

fun uint32_of :: "jsval \<Rightarrow> int" where
  "uint32_of (JNum (JFinite r)) = \<lfloor>r\<rfloor>"
| "uint32_of v = 0"

definition handleOpen :: "env \<Rightarrow> frame \<Rightarrow> socket \<Rightarrow> result" where
  "handleOpen E fr s =
     (if f_binary fr then Inl (Error ''Received a binary open frame.'' [], s)
      else case JSON_parse E (f_data fr) of
        Inl e \<Rightarrow> Inl (e, s)
      | Inr json \<Rightarrow>
          if \<not> (truthy json \<and> typeof json = T_object) then Inl (enforce_error ''open'' ''object'', s)
          else if \<not> is_uint32 (js_get json ''pingInterval'')
          then Inl (enforce_error ''interval'' ''uint32'', s)
          else if \<not> is_uint32 (js_get json ''pingTimeout'')
          then Inl (enforce_error ''timeout'' ''uint32'', s)
          else Inr (s\<lparr>pingInterval := uint32_of (js_get json ''pingInterval''),
                      pingTimeout := uint32_of (js_get json ''pingTimeout'')\<rparr>))"

definition handleClose :: "env \<Rightarrow> int \<Rightarrow> socket \<Rightarrow> result" where
  "handleClose E now s =
     (if inbound s
      then and_then (sendClose E JUndefined s) (\<lambda>s1. destroy E now s1)
      else and_then (sendClose E JUndefined s) (\<lambda>s1. Inr (close now s1)))"

definition handlePing :: "env \<Rightarrow> socket \<Rightarrow> result" where
  "handlePing E s = sendPong E JUndefined s"

definition handlePong :: "env \<Rightarrow> int \<Rightarrow> socket \<Rightarrow> result" where
  "handlePong E now s =
     (if \<not> challenge s
      then and_then (error E ''Remote node sent bad pong.'' s) (\<lambda>s1. destroy E now s1)
      else Inr (s\<lparr>challenge := False\<rparr>))"

text \<open>
  \<^verbatim>\<open>handleMessage(frame)\<close>. The push onto \<^verbatim>\<open>packet.buffers\<close> changes the object that
  \<^verbatim>\<open>this.packet\<close> refers to, so the slot holds the longer packet afterwards.
\<close>

definition handleMessage :: "env \<Rightarrow> frame \<Rightarrow> socket \<Rightarrow> result" where
  "handleMessage E fr s =
     (case packet s of
        Some p \<Rightarrow>
          if \<not> f_binary fr
          then Inl (Error ''Received non-binary frame as attachment.'' [], s)
          else
            let p1 = p\<lparr>buffers := buffers p @ [f_data fr]\<rparr>;
                s1 = s\<lparr>packet := Some p1\<rparr>
            in if int (length (buffers p1)) = attachments p1
               then handlePacket E p1 (s1\<lparr>packet := None\<rparr>)
               else Inr s1
      | None \<Rightarrow>
          if f_binary fr then Inl (Error ''Received binary frame as a message.'' [], s)
          else case Packet_fromString E (f_data fr) of
            Inl e \<Rightarrow> Inl (e, s)
          | Inr p \<Rightarrow>
              if attachments p > 0 then Inr (s\<lparr>packet := Some p\<rparr>)
              else handlePacket E p s)"

definition handleUpgrade :: "socket \<Rightarrow> result" where
  "handleUpgrade s = Inl (Error ''Cannot upgrade from websocket.'' [], s)"

definition handleNoop :: "socket \<Rightarrow> result" where
  "handleNoop s = Inr s"

definition handleFrame :: "env \<Rightarrow> int \<Rightarrow> frame \<Rightarrow> socket \<Rightarrow> result" where
  "handleFrame E now fr s =
     (case f_type fr of
        OPEN \<Rightarrow> handleOpen E fr s
      | CLOSE \<Rightarrow> handleClose E now s
      | PING \<Rightarrow> handlePing E s
      | PONG \<Rightarrow> handlePong E now s
      | MESSAGE \<Rightarrow> handleMessage E fr s
      | UPGRADE \<Rightarrow> handleUpgrade s
      | NOOP \<Rightarrow> handleNoop s
      | OtherFrame n \<Rightarrow> Inl (Error ''Unknown frame.'' [], s))"

text \<open>
  The parser's \<^verbatim>\<open>'frame'\<close> listener installed by \<^verbatim>\<open>init()\<close>: what a handler throws
  is emitted as an error of the session. When that emit throws, the promise of the
  listener is rejected, and nothing in the session handles the rejection.
\<close>

definition on_frame :: "env \<Rightarrow> int \<Rightarrow> frame \<Rightarrow> socket \<Rightarrow> result" where
  "on_frame E now fr s =
     (case handleFrame E now fr s of
        Inl (e, s1) \<Rightarrow> emit E ''error'' (Some e) s1
      | Inr s1 \<Rightarrow> Inr s1)"

subsection \<open>The API (lines 718 to 755)\<close>

text \<open>An argument where the source expects a function.\<close>

datatype fnarg = Fn handler | NotFn jsval

definition listen :: "env \<Rightarrow> jsval \<Rightarrow> fnarg \<Rightarrow> socket \<Rightarrow> result" where
  "listen E event handler s =
     (if typeof event \<noteq> T_string then Inl (enforce_error ''event'' ''string'', s)
      else case handler of
        NotFn v \<Rightarrow> Inl (enforce_error ''handler'' ''function'', s)
      | Fn h \<Rightarrow>
          if blacklist E (js_string event) then Inl (AssertionError ''Blacklisted event.'', s)
          else Inr (s\<lparr>events := (events s)(js_string event := events s (js_string event) @ [h])\<rparr>))"

definition fire :: "env \<Rightarrow> jsval list \<Rightarrow> socket \<Rightarrow> result" where
  "fire E args s =
     (if \<not> length args > 0 then Inl (enforce_error ''event'' ''string'', s)
      else if typeof (args ! 0) \<noteq> T_string then Inl (enforce_error ''event'' ''string'', s)
      else sendEvent E (JArr args) s)"

definition hook :: "env \<Rightarrow> jsval \<Rightarrow> fnarg \<Rightarrow> socket \<Rightarrow> result" where
  "hook E event handler s =
     (if typeof event \<noteq> T_string then Inl (enforce_error ''event'' ''string'', s)
      else case handler of
        NotFn v \<Rightarrow> Inl (enforce_error ''handler'' ''function'', s)
      | Fn h \<Rightarrow>
          if hooks s (js_string event) \<noteq> None then Inl (AssertionError ''Hook already bound.'', s)
          else if blacklist E (js_string event) then Inl (AssertionError ''Blacklisted event.'', s)
          else Inr (s\<lparr>hooks := (hooks s)(js_string event \<mapsto> h)\<rparr>))"

definition call :: "env \<Rightarrow> int \<Rightarrow> jsval list \<Rightarrow> socket \<Rightarrow> result" where
  "call E now args s =
     (if \<not> length args > 0 then Inl (enforce_error ''event'' ''string'', s)
      else if typeof (args ! 0) \<noteq> T_string then Inl (enforce_error ''event'' ''string'', s)
      else
        let i = sequence s;
            s1 = s\<lparr>sequence := (sequence s + 1) mod 2 ^ 32\<rparr>
        in if jobs_get s1 i \<noteq> None then Inl (AssertionError ''ID collision.'', s1)
           else and_then (sendCall E i (JArr args) s1) (\<lambda>s2. Inr (jobs_set i \<lparr>j_time = now\<rparr> s2)))"

section \<open>What a run shows\<close>

text \<open>The state a method leaves, whether it returned or threw.\<close>

definition state_of :: "result \<Rightarrow> socket" where
  "state_of r = (case r of Inl (e, s) \<Rightarrow> s | Inr s \<Rightarrow> s)"

text \<open>The payloads given to \<^verbatim>\<open>ws.send\<close>, the session's emitted events, the rejected
  jobs, and the argument lists handed to \<^verbatim>\<open>emit\<close> of the application bus, each in the
  order they happened.\<close>

fun sent :: "effect list \<Rightarrow> wire list" where
  "sent [] = []"
| "sent (WsSend w # es) = w # sent es"
| "sent (e # es) = sent es"

fun emitted :: "effect list \<Rightarrow> (string \<times> exn option) list" where
  "emitted [] = []"
| "emitted (Emit name arg # es) = (name, arg) # emitted es"
| "emitted (e # es) = emitted es"

fun rejected :: "effect list \<Rightarrow> (int \<times> job \<times> exn) list" where
  "rejected [] = []"
| "rejected (Reject i j e live # es) = (i, j, e) # rejected es"
| "rejected (e # es) = rejected es"

fun dispatched :: "effect list \<Rightarrow> jsval list list" where
  "dispatched [] = []"
| "dispatched (EventsEmit args # es) = args # dispatched es"
| "dispatched (e # es) = dispatched es"

text \<open>The frames the parser emits, each at its time, handled one after the other, up to
  the first whose listener ends in a rejection.\<close>

fun on_frames :: "env \<Rightarrow> (int \<times> frame) list \<Rightarrow> socket \<Rightarrow> result" where
  "on_frames E [] s = Inr s"
| "on_frames E ((now, fr) # rest) s = and_then (on_frame E now fr s) (on_frames E rest)"

text \<open>The payload \<^verbatim>\<open>send\<close> hands to the transport for a frame.\<close>

definition wire_of :: "env \<Rightarrow> socket \<Rightarrow> frame \<Rightarrow> wire" where
  "wire_of E s fr =
     (if f_binary fr \<and> binary s then Raw (Frame_toRaw E fr) else Text (Frame_toString E fr))"

text \<open>The frames \<^verbatim>\<open>sendPacket\<close> makes of a packet: the textual message, then one
  binary message for each buffer.\<close>

definition packet_frames :: "env \<Rightarrow> packet \<Rightarrow> frame list" where
  "packet_frames E p =
     \<lparr>f_type = MESSAGE, f_data = JStr (Packet_toString E p), f_binary = False\<rparr>
       # map (\<lambda>d. \<lparr>f_type = MESSAGE, f_data = d, f_binary = True\<rparr>) (buffers p)"

text \<open>The frames of the EVENT packet that \<^verbatim>\<open>call\<close> sends for id \<open>i\<close>.\<close>

definition call_frames :: "env \<Rightarrow> int \<Rightarrow> jsval list \<Rightarrow> frame list" where
  "call_frames E i args =
     packet_frames E (Packet_setData E ((Packet_new E)\<lparr>p_type := EVENT, p_id := i\<rparr>) (JArr args))"



text \<open>The ERROR packet with which \<^verbatim>\<open>handleEvent\<close> answers a blacklisted name.\<close>

definition blacklisted_reply :: "env \<Rightarrow> string \<Rightarrow> packet" where
  "blacklisted_reply E name =
     Packet_setData E ((Packet_new E)\<lparr>p_type := ERROR\<rparr>)
       (JObj [(''message'', JStr (''Cannot emit blacklisted event: '' @ name @ ''.'')),
              (''code'', JNull), (''type'', JNull)])"

text \<open>What \<^verbatim>\<open>close()\<close> does to the transport's callbacks.\<close>

definition detach :: "websocket \<Rightarrow> websocket" where
  "detach w = w\<lparr>onopen := Noop, onmessage := Noop, onerror := Noop, onclose := Noop\<rparr>"

text \<open>\<^verbatim>\<open>data[n]\<close> for decoded packet data: the element of an array, \<^verbatim>\<open>undefined\<close>
  past its end; data that is not an array has no elements.\<close>

definition data_at :: "jsval \<Rightarrow> nat \<Rightarrow> jsval" where
  "data_at d n = (case d of JArr xs \<Rightarrow> (if n < length xs then xs ! n else JUndefined) | _ \<Rightarrow> JUndefined)"


section \<open>Concrete sessions and collaborators\<close>

text \<open>The state the constructor builds (lines 21 to 51).\<close>

definition new_Socket :: socket where
  "new_Socket =
     \<lparr>ws = None,
      url = ''ws://127.0.0.1:80/socket.io/?transport=websocket'',
      inbound = False, connected = False, challenge = False, destroyed = False,
      time = 0, sequence = 0, pingInterval = 25000, pingTimeout = 60000, lastPing = 0,
      binary = False, packet = None, timer = False, jobs = [],
      hooks = (\<lambda>name. None), events = (\<lambda>name. []), listeners = (\<lambda>name. 0),
      buffer = [], out = []\<rparr>"

text \<open>An outbound session after \<^verbatim>\<open>connect\<close>, before the transport opens; the same
  session with the MESSAGE frame of an event fired in the meantime; and the same
  session once the transport is open.\<close>

definition connecting_Socket :: socket where
  "connecting_Socket =
     new_Socket\<lparr>ws := Some ((new_WebSocket (url new_Socket))
                   \<lparr>binaryType := ''arraybuffer'', onopen := Session, onmessage := Session,
                    onerror := Session, onclose := Session\<rparr>),
                binary := True, timer := True\<rparr>"


definition open_Socket :: socket where
  "open_Socket = connecting_Socket\<lparr>connected := True\<rparr>"

text \<open>
  Collaborators to evaluate with: three blacklisted names, two close codes, a frame
  encoding that puts a digit for the type before the text, and a toy packet codec. The
  codec keeps the event name as the payload; it decodes a text to an EVENT packet without
  id, which announces two attachments when the text is \<^verbatim>\<open>bin\<close>, and its data are the
  payload followed by the buffers.
\<close>

definition example_env :: env where
  "example_env =
     \<lparr>blacklist = (\<lambda>name. name = ''error'' \<or> name = ''newListener'' \<or> name = ''removeListener''),
      codes = (\<lambda>c. if c = 1006 then Some ''ABNORMAL_CLOSURE''
                    else if c = 1002 then Some ''PROTOCOL_ERROR'' else None),
      Packet_new = \<lparr>p_type = CONNECT, p_id = -1, attachments = 0, buffers = [], payload = []\<rparr>,
      Packet_fromString = (\<lambda>d. case d of
          JStr t \<Rightarrow> Inr \<lparr>p_type = EVENT, p_id = -1,
                         attachments = (if t = ''bin'' then 2 else 0), buffers = [], payload = t\<rparr>
        | _ \<Rightarrow> Inl (Error ''Bad packet.'' [])),
      Packet_toString = payload,
      Packet_getData = (\<lambda>p. Inr (JArr (JStr (payload p) # buffers p))),
      Packet_setData = (\<lambda>p d. p\<lparr>payload := (case d of JArr (JStr name # rest) \<Rightarrow> name | _ \<Rightarrow> ''data'')\<rparr>),
      Frame_toRaw = (\<lambda>fr. case f_data fr of JBuf b \<Rightarrow> b | _ \<Rightarrow> []),
      Frame_toString = (\<lambda>fr.
          (case f_type fr of
             OPEN \<Rightarrow> ''0'' | CLOSE \<Rightarrow> ''1'' | PING \<Rightarrow> ''2'' | PONG \<Rightarrow> ''3''
           | MESSAGE \<Rightarrow> ''4'' | UPGRADE \<Rightarrow> ''5'' | NOOP \<Rightarrow> ''6'' | OtherFrame n \<Rightarrow> ''?'')
          @ (case f_data fr of JStr t \<Rightarrow> t | _ \<Rightarrow> [])),
      JSON_parse = (\<lambda>d. Inl (Error ''Unexpected token.'' [])),
      JSON_stringify = (\<lambda>v. ''{}''),
      unhandled_error = (\<lambda>v. Error ''Unhandled error.'' [])\<rparr>"

text \<open>The same collaborators with a codec that decodes \<open>d\<close> from every packet.\<close>

definition decoding :: "jsval \<Rightarrow> env" where
  "decoding d = example_env\<lparr>Packet_getData := (\<lambda>p. Inr d)\<rparr>"

text \<open>An ACK packet for call 1, and a fire-and-forget EVENT packet.\<close>

definition ack_packet :: packet where
  "ack_packet = \<lparr>p_type = ACK, p_id = 1, attachments = 0, buffers = [], payload = []\<rparr>"

definition event_packet :: packet where
  "event_packet = \<lparr>p_type = EVENT, p_id = -1, attachments = 0, buffers = [], payload = []\<rparr>"

text \<open>A connected outbound session with two calls in flight and a packet in reassembly.\<close>

definition busy_Socket :: socket where
  "busy_Socket =
     connecting_Socket\<lparr>connected := True, challenge := True, sequence := 3, lastPing := 50,
       packet := Some \<lparr>p_type = BINARY_EVENT, p_id = -1, attachments = 2, buffers = [],
                       payload = ''bin''\<rparr>,
       jobs := [(1, \<lparr>j_time = 10\<rparr>), (2, \<lparr>j_time = 20\<rparr>)]\<rparr>"

text \<open>The packet that the example codec decodes from the text \<^verbatim>\<open>bin\<close>, the open session
  with that packet in reassembly, and MESSAGE frames.\<close>

definition bin_packet :: packet where
  "bin_packet = \<lparr>p_type = EVENT, p_id = -1, attachments = 2, buffers = [], payload = ''bin''\<rparr>"

definition reassembling_Socket :: socket where
  "reassembling_Socket = open_Socket\<lparr>packet := Some bin_packet\<rparr>"

definition binary_frame :: "byte list \<Rightarrow> frame" where
  "binary_frame b = \<lparr>f_type = MESSAGE, f_data = JBuf b, f_binary = True\<rparr>"

definition text_frame :: "string \<Rightarrow> frame" where
  "text_frame t = \<lparr>f_type = MESSAGE, f_data = JStr t, f_binary = False\<rparr>"

text \<open>The connecting session after \<^verbatim>\<open>destroy()\<close>.\<close>

definition destroyed_Socket :: socket where
  "destroyed_Socket = state_of (destroy example_env 3 connecting_Socket)"

section \<open>Coercion of inbound error objects\<close>

text \<open>
  C8. When an inbound error object is processed by \<^verbatim>\<open>handleError\<close> (for an ERROR
  packet, id \<open>-1\<close>, and for the rejection of a job), its fields are coerced: a message
  that is not a string becomes \<^verbatim>\<open>"No message."\<close>; a code that is neither
  \<^verbatim>\<open>null\<close>, a number nor a string becomes \<^verbatim>\<open>null\<close>; a type that is not a string
  becomes \<^verbatim>\<open>null\<close>; values of the permitted types pass through unchanged. The error
  that is emitted (handed to the \<^verbatim>\<open>'error'\<close> listeners, or thrown by the emit when
  there is none) or given to the job's \<^verbatim>\<open>reject\<close> carries the coerced fields.
\<close>

theorem C8_error_fields_coerced:
  "castMsg (JStr m) = m
   \<and> (typeof v \<noteq> T_string \<longrightarrow> castMsg v = ''No message.'')
   \<and> castCode JNull = JNull \<and> castCode (JNum n) = JNum n \<and> castCode (JStr c) = JStr c
   \<and> (v \<noteq> JNull \<and> typeof v \<noteq> T_number \<and> typeof v \<noteq> T_string \<longrightarrow> castCode v = JNull)
   \<and> castType (JStr t) = JStr t
   \<and> (typeof v \<noteq> T_string \<longrightarrow> castType v = JNull)
   \<and> handleError E (-1) err s =
       emit E ''error'' (Some (Error (castMsg (js_get err ''message''))
              [(''code'', castCode (js_get err ''code'')),
               (''type'', castType (js_get err ''type''))])) s
   \<and> (listeners s ''error'' \<noteq> 0 \<longrightarrow> handleError E (-1) err s =
       Inr (do_effect (Emit ''error'' (Some (Error (castMsg (js_get err ''message''))
              [(''code'', castCode (js_get err ''code'')),
               (''type'', castType (js_get err ''type''))]))) s))
   \<and> (listeners s ''error'' = 0 \<longrightarrow> handleError E (-1) err s =
       Inl (Error (castMsg (js_get err ''message''))
              [(''code'', castCode (js_get err ''code'')),
               (''type'', castType (js_get err ''type''))], s))
   \<and> (i \<noteq> -1 \<and> jobs_get s i = Some j \<longrightarrow> handleError E i err s =
       Inr (job_reject i j (Error (castMsg (js_get err ''message''))
              [(''code'', castCode (js_get err ''code'')),
               (''type'', castType (js_get err ''type''))])
            (jobs_delete i s)))"
  by (simp add: castMsg_def castCode_def castType_def handleError_def remote_error_def emit_def)

theorem C8_error_fields_coerced_witness:
  "typeof (JBool True) \<noteq> T_string
   \<and> castMsg (JBool True) = ''No message.''
   \<and> castCode (JBool True) = JNull
   \<and> castType (JBool True) = JNull
   \<and> jobs_get (new_Socket\<lparr>jobs := [(7, \<lparr>j_time = 100\<rparr>)]\<rparr>) 7 = Some \<lparr>j_time = 100\<rparr>
   \<and> handleError example_env 7
        (JObj [(''message'', JNum (JFinite 5)), (''code'', JBool True), (''type'', JStr ''X'')])
        (new_Socket\<lparr>jobs := [(7, \<lparr>j_time = 100\<rparr>)]\<rparr>)
      = Inr (job_reject 7 \<lparr>j_time = 100\<rparr>
              (Error ''No message.'' [(''code'', JNull), (''type'', JStr ''X'')])
              (jobs_delete 7 (new_Socket\<lparr>jobs := [(7, \<lparr>j_time = 100\<rparr>)]\<rparr>)))
   \<and> handleError example_env (-1)
        (JObj [(''message'', JStr ''bad''), (''code'', JNum (JFinite 42))]) (on ''error'' new_Socket)
      = Inr ((on ''error'' new_Socket)
               \<lparr>out := [Emit ''error'' (Some (Error ''bad''
                          [(''code'', JNum (JFinite 42)), (''type'', JNull)]))]\<rparr>)
   \<and> handleError example_env (-1)
        (JObj [(''message'', JStr ''bad''), (''code'', JNum (JFinite 42))]) new_Socket
      = Inl (Error ''bad'' [(''code'', JNum (JFinite 42)), (''type'', JNull)], new_Socket)"
proof -
  let ?S = "new_Socket\<lparr>jobs := [(7, \<lparr>j_time = 100\<rparr>)]\<rparr>"
  let ?e7 = "JObj [(''message'', JNum (JFinite 5)), (''code'', JBool True), (''type'', JStr ''X'')]"
  let ?e = "JObj [(''message'', JStr ''bad''), (''code'', JNum (JFinite 42))]"
  have st: "listeners (on ''error'' new_Socket) ''error'' \<noteq> 0" "listeners new_Socket ''error'' = 0"
    "out (on ''error'' new_Socket) = []" "jobs_get ?S 7 = Some \<lparr>j_time = 100\<rparr>"
    by (simp_all add: on_def new_Socket_def jobs_get_def)
  have a: "handleError example_env 7 ?e7 ?S =
      Inr (job_reject 7 \<lparr>j_time = 100\<rparr>
              (Error ''No message.'' [(''code'', JNull), (''type'', JStr ''X'')])
              (jobs_delete 7 ?S))"
    using C8_error_fields_coerced [where v = "JBool True" and E = example_env and err = ?e7
            and s = ?S and i = 7 and j = "\<lparr>j_time = 100\<rparr>"]
    by (simp (no_asm_use) add: st castMsg_def castCode_def castType_def) blast
  have b: "handleError example_env (-1) ?e (on ''error'' new_Socket) =
      Inr (do_effect (Emit ''error'' (Some (Error ''bad''
                          [(''code'', JNum (JFinite 42)), (''type'', JNull)]))) (on ''error'' new_Socket))"
    using C8_error_fields_coerced [where v = "JBool True" and E = example_env and err = ?e
            and s = "on ''error'' new_Socket"]
    by (simp (no_asm_use) add: st castMsg_def castCode_def castType_def) blast
  have c: "handleError example_env (-1) ?e new_Socket =
      Inl (Error ''bad'' [(''code'', JNum (JFinite 42)), (''type'', JNull)], new_Socket)"
    using C8_error_fields_coerced [where v = "JBool True" and E = example_env and err = ?e
            and s = new_Socket]
    by (simp (no_asm_use) add: st castMsg_def castCode_def castType_def) blast
  have d: "typeof (JBool True) \<noteq> T_string" "castMsg (JBool True) = ''No message.''"
    "castCode (JBool True) = JNull" "castType (JBool True) = JNull"
    by (simp_all add: castMsg_def castCode_def castType_def)
  show ?thesis
    using a c d st(4) by (simp add: b do_effect_def st(3))
qed

section \<open>Sending: buffered before the transport opens, written to it afterwards\<close>


lemma emitted_append: "emitted (xs @ ys) = emitted xs @ emitted ys"
  by (induction xs rule: emitted.induct) simp_all

lemma send_each_buffered:
  "\<not> connected s \<Longrightarrow> send_each E frs s = Inr (s\<lparr>buffer := buffer s @ frs\<rparr>)"
  by (induction frs arbitrary: s) (simp_all add: send_def and_then_def)

lemma send_each_connected:
  "connected s \<Longrightarrow> ws s = Some w \<Longrightarrow>
   send_each E frs s = Inr (s\<lparr>out := out s @ map (\<lambda>fr. WsSend (wire_of E s fr)) frs\<rparr>)"
  by (induction frs arbitrary: s) (simp_all add: send_def and_then_def do_effect_def wire_of_def)

lemma send_each_no_transport:
  "connected s \<Longrightarrow> ws s = None \<Longrightarrow> frs \<noteq> [] \<Longrightarrow> send_each E frs s = Inl (AssertionError [], s)"
  by (cases frs) (simp_all add: send_def and_then_def)

lemma sendBinary_each_send_each:
  "sendBinary_each E ds s =
   send_each E (map (\<lambda>d. \<lparr>f_type = MESSAGE, f_data = d, f_binary = True\<rparr>) ds) s"
  by (induction ds arbitrary: s)
     (simp_all add: sendBinary_def sendFrame_def and_then_def split: sum.splits)

lemma sendPacket_send_each: "sendPacket E p s = send_each E (packet_frames E p) s"
  by (simp add: sendPacket_def packet_frames_def sendMessage_def sendFrame_def
        sendBinary_each_send_each and_then_def split: sum.splits)

section \<open>Closing the session\<close>

text \<open>The loop over the job table changes the table and the record of calls only.\<close>

lemma reject_each_frame:
  "reject_each js s = s\<lparr>jobs := jobs (reject_each js s), out := out (reject_each js s)\<rparr>"
proof (induction js arbitrary: s)
  case Nil show ?case by simp
next
  case (Cons a js)
  obtain i j where a: "a = (i, j)" by (cases a)
  let ?s1 = "job_reject i j (Error ''Job timed out.'' []) (jobs_delete i s)"
  have "reject_each js ?s1 = ?s1\<lparr>jobs := jobs (reject_each js ?s1), out := out (reject_each js ?s1)\<rparr>"
    by (rule Cons.IH)
  then show ?case
    by (simp add: a job_reject_def jobs_delete_def do_effect_def)
qed

lemma jobs_reject_each:
  "jobs (reject_each js s) = filter (\<lambda>(k, j). k \<notin> fst ` set js) (jobs s)"
  by (induction js arbitrary: s)
     (auto simp: job_reject_def jobs_delete_def do_effect_def intro!: filter_cong)

lemma jobs_reject_each_all: "jobs (reject_each (jobs s) s) = []"
  by (auto simp: jobs_reject_each filter_empty_conv intro: rev_image_eqI)

lemma out_reject_each:
  "\<exists>new. out (reject_each js s) = out s @ new
     \<and> rejected new = map (\<lambda>(i, j). (i, j, Error ''Job timed out.'' [])) js
     \<and> length new = length js
     \<and> (\<forall>e \<in> set new. \<exists>i j live. e = Reject i j (Error ''Job timed out.'' []) live \<and> i \<notin> set live)"
proof (induction js arbitrary: s)
  case Nil
  show ?case by simp
next
  case (Cons a js)
  obtain i j where a: "a = (i, j)" by (cases a)
  let ?err = "Error ''Job timed out.'' []"
  let ?live = "map fst (filter (\<lambda>(k, j). k \<noteq> i) (jobs s))"
  let ?s1 = "job_reject i j ?err (jobs_delete i s)"
  have out1: "out ?s1 = out s @ [Reject i j ?err ?live]"
    by (simp add: job_reject_def jobs_delete_def do_effect_def)
  have fresh: "i \<notin> set ?live" by auto
  from Cons.IH [of ?s1] obtain new where
    n1: "out (reject_each js ?s1) = out ?s1 @ new" and
    n2: "rejected new = map (\<lambda>(i, j). (i, j, ?err)) js" and
    n3: "length new = length js" and
    n4: "\<forall>e \<in> set new. \<exists>i j live. e = Reject i j ?err live \<and> i \<notin> set live"
    by blast
  let ?new = "Reject i j ?err ?live # new"
  have "out (reject_each (a # js) s) = out s @ ?new"
    using n1 out1 by (simp add: a)
  moreover have "rejected ?new = map (\<lambda>(i, j). (i, j, ?err)) (a # js)"
    using n2 by (simp add: a)
  moreover have "length ?new = length (a # js)"
    using n3 by simp
  moreover have "\<forall>e \<in> set ?new. \<exists>i j live. e = Reject i j ?err live \<and> i \<notin> set live"
    using n4 fresh by simp
  ultimately show ?case by blast
qed

lemma emitted_rejections:
  "\<forall>e \<in> set new. \<exists>i j x live. e = Reject i j x live \<Longrightarrow> emitted new = []"
  by (induction new) auto

lemma close_fields:
  "time (close now s) = now" "packet (close now s) = None" "\<not> connected (close now s)"
  "\<not> challenge (close now s)" "sequence (close now s) = 0" "lastPing (close now s) = 0"
  "jobs (close now s) = []" "ws (close now s) = map_option detach (ws s)"
  "url (close now s) = url s" "inbound (close now s) = inbound s"
  "destroyed (close now s) = destroyed s" "timer (close now s) = timer s"
  "buffer (close now s) = buffer s" "hooks (close now s) = hooks s"
  "events (close now s) = events s" "binary (close now s) = binary s"
  "pingInterval (close now s) = pingInterval s" "pingTimeout (close now s) = pingTimeout s"
  "listeners (close now s) = listeners s"
proof -
  let ?s1 = "s\<lparr>time := now, packet := None, connected := False, challenge := False,
               sequence := 0, lastPing := 0\<rparr>"
  let ?s2 = "reject_each (jobs s) ?s1"
  have fr: "?s2 = ?s1\<lparr>jobs := [], out := out ?s2\<rparr>"
    using reject_each_frame [of "jobs s" ?s1] jobs_reject_each_all [of ?s1] by simp
  have f2: "time ?s2 = now" "packet ?s2 = None" "\<not> connected ?s2" "\<not> challenge ?s2"
    "sequence ?s2 = 0" "lastPing ?s2 = 0" "jobs ?s2 = []" "ws ?s2 = ws s" "url ?s2 = url s"
    "inbound ?s2 = inbound s" "destroyed ?s2 = destroyed s" "timer ?s2 = timer s"
    "buffer ?s2 = buffer s" "hooks ?s2 = hooks s" "events ?s2 = events s" "binary ?s2 = binary s"
    "pingInterval ?s2 = pingInterval s" "pingTimeout ?s2 = pingTimeout s"
    "listeners ?s2 = listeners s"
    by (subst fr, simp)+
  have cl: "close now s = (case ws s of None \<Rightarrow> ?s2
        | Some w \<Rightarrow> do_effect WsClose (?s2\<lparr>ws := Some (detach w)\<rparr>))"
    using f2(8) by (simp add: close_def Let_def detach_def split: option.splits)
  show "time (close now s) = now" "packet (close now s) = None" "\<not> connected (close now s)"
  "\<not> challenge (close now s)" "sequence (close now s) = 0" "lastPing (close now s) = 0"
  "jobs (close now s) = []" "ws (close now s) = map_option detach (ws s)"
  "url (close now s) = url s" "inbound (close now s) = inbound s"
  "destroyed (close now s) = destroyed s" "timer (close now s) = timer s"
  "buffer (close now s) = buffer s" "hooks (close now s) = hooks s"
  "events (close now s) = events s" "binary (close now s) = binary s"
  "pingInterval (close now s) = pingInterval s" "pingTimeout (close now s) = pingTimeout s"
  "listeners (close now s) = listeners s"
    by (simp_all add: cl do_effect_def f2 split: option.splits)
qed

lemma close_out:
  "\<exists>new. out (close now s) = out s @ new @ (case ws s of None \<Rightarrow> [] | Some w \<Rightarrow> [WsClose])
     \<and> rejected new = map (\<lambda>(i, j). (i, j, Error ''Job timed out.'' [])) (jobs s)
     \<and> length new = length (jobs s)
     \<and> (\<forall>e \<in> set new. \<exists>i j live. e = Reject i j (Error ''Job timed out.'' []) live \<and> i \<notin> set live)"
proof -
  let ?s1 = "s\<lparr>time := now, packet := None, connected := False, challenge := False,
               sequence := 0, lastPing := 0\<rparr>"
  let ?s2 = "reject_each (jobs s) ?s1"
  let ?err = "Error ''Job timed out.'' []"
  from out_reject_each [of "jobs s" ?s1] obtain new where
    n1: "out ?s2 = out s @ new" and
    n2: "rejected new = map (\<lambda>(i, j). (i, j, ?err)) (jobs s)" and
    n3: "length new = length (jobs s)" and
    n4: "\<forall>e \<in> set new. \<exists>i j live. e = Reject i j ?err live \<and> i \<notin> set live"
    by auto
  have w2: "ws ?s2 = ws s"
    by (subst reject_each_frame) simp
  have "out (close now s) = out s @ new @ (case ws s of None \<Rightarrow> [] | Some w \<Rightarrow> [WsClose])"
    using w2 n1 by (simp add: close_def Let_def do_effect_def split: option.splits)
  then show ?thesis using n2 n3 n4 by blast
qed

lemma emitted_close: "emitted (out (close now s)) = emitted (out s)"
proof -
  from close_out [of now s] obtain new where
    n1: "out (close now s) = out s @ new @ (case ws s of None \<Rightarrow> [] | Some w \<Rightarrow> [WsClose])" and
    n4: "\<forall>e \<in> set new. \<exists>i j live. e = Reject i j (Error ''Job timed out.'' []) live \<and> i \<notin> set live"
    by blast
  have "emitted new = []" using n4 by (intro emitted_rejections) blast
  then show ?thesis using n1 by (simp add: emitted_append split: option.splits)
qed

text \<open>
  C7. \<^verbatim>\<open>close()\<close> clears the in-progress packet, the connected flag and the challenge
  flag, resets \<open>sequence\<close> and \<open>lastPing\<close> to 0, rejects every outstanding job, in the
  order of the table, with an error whose message is \<^verbatim>\<open>"Job timed out."\<close>, each job
  being out of the table when its \<^verbatim>\<open>reject\<close> is called, and leaves the table empty;
  it replaces the four callbacks of the transport (when the session has one) with no-ops
  and closes it, which is the last thing it does; and it emits no event, so no
  \<^verbatim>\<open>close\<close> event.
\<close>

theorem C7_close:
  "\<exists>new.
     packet (close now s) = None \<and> \<not> connected (close now s) \<and> \<not> challenge (close now s)
   \<and> sequence (close now s) = 0 \<and> lastPing (close now s) = 0
   \<and> jobs (close now s) = []
   \<and> out (close now s) = out s @ new @ (case ws s of None \<Rightarrow> [] | Some w \<Rightarrow> [WsClose])
   \<and> rejected new = map (\<lambda>(i, j). (i, j, Error ''Job timed out.'' [])) (jobs s)
   \<and> length new = length (jobs s)
   \<and> (\<forall>e \<in> set new. \<exists>i j live. e = Reject i j (Error ''Job timed out.'' []) live \<and> i \<notin> set live)
   \<and> ws (close now s) = map_option detach (ws s)
   \<and> emitted (out (close now s)) = emitted (out s)"
  using close_out [of now s] by (simp add: close_fields emitted_close)

theorem C7_close_witness:
  "out (close 99 busy_Socket) =
     [Reject 1 \<lparr>j_time = 10\<rparr> (Error ''Job timed out.'' []) [2],
      Reject 2 \<lparr>j_time = 20\<rparr> (Error ''Job timed out.'' []) [],
      WsClose]
   \<and> (\<exists>new. out (close 99 busy_Socket) = new @ [WsClose]
         \<and> rejected new = [(1, \<lparr>j_time = 10\<rparr>, Error ''Job timed out.'' []),
                            (2, \<lparr>j_time = 20\<rparr>, Error ''Job timed out.'' [])]
         \<and> (\<forall>e \<in> set new. \<exists>i j live. e = Reject i j (Error ''Job timed out.'' []) live \<and> i \<notin> set live))
   \<and> jobs (close 99 busy_Socket) = [] \<and> packet (close 99 busy_Socket) = None
   \<and> emitted (out (close 99 busy_Socket)) = []"
proof -
  have ev: "out (close 99 busy_Socket) =
     [Reject 1 \<lparr>j_time = 10\<rparr> (Error ''Job timed out.'' []) [2],
      Reject 2 \<lparr>j_time = 20\<rparr> (Error ''Job timed out.'' []) [],
      WsClose]"
    by (simp add: close_def busy_Socket_def connecting_Socket_def new_Socket_def
          new_WebSocket_def job_reject_def jobs_delete_def do_effect_def)
  have st: "out busy_Socket = []" "ws busy_Socket \<noteq> None"
    "jobs busy_Socket = [(1, \<lparr>j_time = 10\<rparr>), (2, \<lparr>j_time = 20\<rparr>)]"
    by (simp_all add: busy_Socket_def connecting_Socket_def new_Socket_def)
  from C7_close [of 99 busy_Socket] st ev show ?thesis
    by auto
qed

section \<open>The connect timeout after a close\<close>

text \<open>
  C10. Every \<^verbatim>\<open>close()\<close> sets \<open>time\<close> to the current timestamp, so that a liveness
  tick no more than 10000 ms after the close of a session with a transport does nothing.
  \<^verbatim>\<open>reconnect()\<close> calls \<^verbatim>\<open>close()\<close> first, so it returns with \<open>time\<close> at the moment
  of the reconnect and the session not connected, and the tick measures the connect
  timeout from there: a tick no more than 10000 ms after the reconnect does nothing, and
  a later one reports "Timed out waiting for connection." through \<^verbatim>\<open>error\<close>. With an
  \<^verbatim>\<open>'error'\<close> listener the report is emitted, and then an inbound session is destroyed
  and an outbound one reconnects; with none the report is thrown by the emit and the tick
  ends there.
\<close>

theorem C10_close_restarts_connect_timeout:
  "time (close now s) = now
   \<and> (ws s \<noteq> None \<and> now' - now \<le> 10000 \<longrightarrow> stall E now' (close now s) = Inr (close now s))
   \<and> (case reconnect now s of
        Inl e \<Rightarrow> False
      | Inr t \<Rightarrow>
          time t = now \<and> \<not> connected t
          \<and> (now' - now \<le> 10000 \<longrightarrow> stall E now' t = Inr t)
          \<and> (now' - now > 10000 \<longrightarrow>
               stall E now' t =
                 and_then (error E ''Timed out waiting for connection.'' t)
                   (\<lambda>t1. if inbound t1 then destroy E now' t1 else reconnect now' t1))
          \<and> (now' - now > 10000 \<and> listeners s ''error'' = 0 \<longrightarrow>
               stall E now' t = Inl (Error ''Timed out waiting for connection.'' [], t))
          \<and> (now' - now > 10000 \<and> listeners s ''error'' \<noteq> 0 \<longrightarrow>
               stall E now' t =
                 (if inbound s
                  then destroy E now'
                         (do_effect (Emit ''error''
                            (Some (Error ''Timed out waiting for connection.'' []))) t)
                  else reconnect now'
                         (do_effect (Emit ''error''
                            (Some (Error ''Timed out waiting for connection.'' []))) t))))"
proof -
  have "stall E now' (close now s) = Inr (close now s)" if "ws s \<noteq> None" "now' - now \<le> 10000"
    using that by (auto simp: stall_def close_fields)
  then show ?thesis
    by (simp add: reconnect_def bind_def Let_def do_effect_def close_fields stall_def error_def
          emit_def and_then_def)
qed

theorem C10_close_restarts_connect_timeout_witness:
  "(case reconnect 1000 (on ''error'' connecting_Socket) of
      Inl e \<Rightarrow> False
    | Inr t \<Rightarrow>
        time connecting_Socket = 0 \<and> time t = 1000
        \<and> stall example_env 10500 t = Inr t
        \<and> stall example_env 11001 t =
            reconnect 11001
              (do_effect (Emit ''error'' (Some (Error ''Timed out waiting for connection.'' []))) t))
   \<and> (case reconnect 1000 connecting_Socket of
      Inl e \<Rightarrow> False
    | Inr t \<Rightarrow>
        stall example_env 10500 t = Inr t
        \<and> stall example_env 11001 t = Inl (Error ''Timed out waiting for connection.'' [], t))
   \<and> stall example_env 10500 (close 1000 connecting_Socket) = Inr (close 1000 connecting_Socket)"
  using C10_close_restarts_connect_timeout [of 1000 "on ''error'' connecting_Socket" 10500 example_env]
        C10_close_restarts_connect_timeout [of 1000 "on ''error'' connecting_Socket" 11001 example_env]
        C10_close_restarts_connect_timeout [of 1000 connecting_Socket 10500 example_env]
        C10_close_restarts_connect_timeout [of 1000 connecting_Socket 11001 example_env]
  by (auto simp: on_def connecting_Socket_def new_Socket_def split: sum.splits)

section \<open>Acknowledgements\<close>

lemma ack_err_cases:
  "eq_null d \<or> isArray d \<Longrightarrow>
   truthy (if truthy d \<and> length (elems d) > 0 then elems d ! 0 else JNull) = truthy (data_at d 0)"
  by (cases d) (auto simp: data_at_def)

lemma ack_err_value:
  "eq_null d \<or> isArray d \<Longrightarrow> truthy (data_at d 0) \<Longrightarrow>
   (if truthy d \<and> length (elems d) > 0 then elems d ! 0 else JNull) = data_at d 0"
  by (cases d) (auto simp: data_at_def)

lemma ack_result_value:
  "eq_null d \<or> isArray d \<Longrightarrow>
   (let r = (if truthy d \<and> length (elems d) > 1 then elems d ! 1 else JNull)
    in if eq_null r then JNull else r)
   = (if eq_null (data_at d 1) then JNull else data_at d 1)"
  by (cases d) (auto simp: data_at_def)

lemma handlePacket_ack:
  assumes "p_type p = ACK \<or> p_type p = BINARY_ACK" "p_id p \<noteq> -1" "Packet_getData E p = Inr d"
    "eq_null d \<or> isArray d"
  shows "handlePacket E p s =
     (if truthy (data_at d 0)
      then (if typeof (data_at d 0) \<noteq> T_object then Inl (enforce_error ''error'' ''object'', s)
            else handleError E (p_id p) (data_at d 0) s)
      else handleAck (p_id p) (if eq_null (data_at d 1) then JNull else data_at d 1) s)"
proof -
  let ?err = "(if truthy d \<and> length (elems d) > 0 then elems d ! 0 else JNull)"
  have t: "truthy ?err = truthy (data_at d 0)" using assms(4) by (rule ack_err_cases)
  have r: "(let r = (if truthy d \<and> length (elems d) > 1 then elems d ! 1 else JNull)
    in if eq_null r then JNull else r) = (if eq_null (data_at d 1) then JNull else data_at d 1)"
    using assms(4) by (rule ack_result_value)
  show ?thesis
  proof (cases "truthy (data_at d 0)")
    case True
    then have "?err = data_at d 0" using assms(4) by (intro ack_err_value)
    then show ?thesis using assms True t by (auto simp: handlePacket_def Let_def)
  next
    case False
    then show ?thesis using assms t r by (auto simp: handlePacket_def Let_def)
  qed
qed

text \<open>
  C1. For every inbound ACK or BINARY_ACK packet: an id of \<open>-1\<close> is refused; the decoded
  data must be \<^verbatim>\<open>null\<close> (or \<^verbatim>\<open>undefined\<close>) or an array; with \<open>err = data[0]\<close> and
  \<open>result = data[1]\<close>, a truthy \<open>err\<close> must be an object, and then the job registered
  under the id is rejected with an Error that carries the coerced message, code and type;
  otherwise that job is resolved with \<open>result\<close>, where \<^verbatim>\<open>undefined\<close> and \<^verbatim>\<open>null\<close>
  become \<^verbatim>\<open>null\<close>. In both paths the job is out of the table when \<^verbatim>\<open>resolve\<close> or
  \<^verbatim>\<open>reject\<close> is called (the call is recorded with the keys of the table at that
  moment, and the id is not among them). When no job is registered under the id, the
  handler throws "Job not found", with the session unchanged.
\<close>

theorem C1_ack_dispatch:
  assumes ack: "p_type p = ACK \<or> p_type p = BINARY_ACK"
  shows
   "(p_id p = -1 \<longrightarrow> handlePacket E p s = Inl (enforce_error ''id'' ''uint32'', s))
  \<and> (p_id p \<noteq> -1 \<and> Packet_getData E p = Inr d \<longrightarrow>
      (\<not> (eq_null d \<or> isArray d) \<longrightarrow>
         handlePacket E p s = Inl (enforce_error ''args'' ''array'', s))
    \<and> (eq_null d \<or> isArray d \<longrightarrow>
        (truthy (data_at d 0) \<and> typeof (data_at d 0) \<noteq> T_object \<longrightarrow>
           handlePacket E p s = Inl (enforce_error ''error'' ''object'', s))
      \<and> (jobs_get s (p_id p) = None \<and> (truthy (data_at d 0) \<longrightarrow> typeof (data_at d 0) = T_object) \<longrightarrow>
           handlePacket E p s = Inl (job_not_found (p_id p), s))
      \<and> (\<forall>j. jobs_get s (p_id p) = Some j \<longrightarrow>
           (truthy (data_at d 0) \<and> typeof (data_at d 0) = T_object \<longrightarrow>
              handlePacket E p s =
                Inr (s\<lparr>jobs := filter (\<lambda>(k, j). k \<noteq> p_id p) (jobs s),
                       out := out s @
                         [Reject (p_id p) j
                            (Error (castMsg (js_get (data_at d 0) ''message''))
                               [(''code'', castCode (js_get (data_at d 0) ''code'')),
                                (''type'', castType (js_get (data_at d 0) ''type''))])
                            (map fst (filter (\<lambda>(k, j). k \<noteq> p_id p) (jobs s)))]\<rparr>))
         \<and> (\<not> truthy (data_at d 0) \<longrightarrow>
              handlePacket E p s =
                Inr (s\<lparr>jobs := filter (\<lambda>(k, j). k \<noteq> p_id p) (jobs s),
                       out := out s @
                         [Resolve (p_id p) j
                            (if eq_null (data_at d 1) then JNull else data_at d 1)
                            (map fst (filter (\<lambda>(k, j). k \<noteq> p_id p) (jobs s)))]\<rparr>)))))
  \<and> p_id p \<notin> set (map fst (filter (\<lambda>(k, j). k \<noteq> p_id p) (jobs s)))"
proof -
  have a: "p_id p = -1 \<longrightarrow> handlePacket E p s = Inl (enforce_error ''id'' ''uint32'', s)"
    using ack by (auto simp: handlePacket_def)
  have b: "handlePacket E p s = Inl (enforce_error ''args'' ''array'', s)"
    if "p_id p \<noteq> -1" "Packet_getData E p = Inr d" "\<not> (eq_null d \<or> isArray d)"
    using ack that by (auto simp: handlePacket_def)
  have c: "handlePacket E p s =
     (if truthy (data_at d 0)
      then (if typeof (data_at d 0) \<noteq> T_object then Inl (enforce_error ''error'' ''object'', s)
            else handleError E (p_id p) (data_at d 0) s)
      else handleAck (p_id p) (if eq_null (data_at d 1) then JNull else data_at d 1) s)"
    if "p_id p \<noteq> -1" "Packet_getData E p = Inr d" "eq_null d \<or> isArray d"
    using ack that by (rule handlePacket_ack)
  have d: "p_id p \<notin> set (map fst (filter (\<lambda>(k, j). k \<noteq> p_id p) (jobs s)))"
    by auto
  show ?thesis
    using a b c d
    by (simp add: handleError_def handleAck_def job_reject_def job_resolve_def jobs_delete_def
          do_effect_def remote_error_def Let_def)
qed

theorem C1_ack_dispatch_witness:
  "handlePacket (decoding (JArr [JNull, JStr ''pong''])) ack_packet busy_Socket =
     Inr (busy_Socket\<lparr>jobs := [(2, \<lparr>j_time = 20\<rparr>)],
            out := [Resolve 1 \<lparr>j_time = 10\<rparr> (JStr ''pong'') [2]]\<rparr>)
   \<and> handlePacket (decoding (JArr [JNull])) ack_packet busy_Socket =
     Inr (busy_Socket\<lparr>jobs := [(2, \<lparr>j_time = 20\<rparr>)],
            out := [Resolve 1 \<lparr>j_time = 10\<rparr> JNull [2]]\<rparr>)
   \<and> handlePacket
       (decoding (JArr [JObj [(''message'', JStr ''bad''), (''code'', JNum (JFinite 42)),
                              (''type'', JBool True)]]))
       ack_packet busy_Socket =
     Inr (busy_Socket\<lparr>jobs := [(2, \<lparr>j_time = 20\<rparr>)],
            out := [Reject 1 \<lparr>j_time = 10\<rparr>
                      (Error ''bad'' [(''code'', JNum (JFinite 42)), (''type'', JNull)]) [2]]\<rparr>)
   \<and> handlePacket (decoding JNull) ack_packet new_Socket = Inl (job_not_found 1, new_Socket)
   \<and> handlePacket (decoding (JArr [JStr ''oops''])) ack_packet busy_Socket =
     Inl (enforce_error ''error'' ''object'', busy_Socket)
   \<and> handlePacket (decoding (JBool True)) ack_packet busy_Socket =
     Inl (enforce_error ''args'' ''array'', busy_Socket)
   \<and> handlePacket example_env (ack_packet\<lparr>p_id := -1\<rparr>) busy_Socket =
     Inl (enforce_error ''id'' ''uint32'', busy_Socket)"
proof -
  have p: "p_type ack_packet = ACK \<or> p_type ack_packet = BINARY_ACK" "p_id ack_packet = 1"
    "p_type (ack_packet\<lparr>p_id := -1\<rparr>) = ACK \<or> p_type (ack_packet\<lparr>p_id := -1\<rparr>) = BINARY_ACK"
    by (simp_all add: ack_packet_def)
  have g: "Packet_getData (decoding d) ack_packet = Inr d" for d
    by (simp add: decoding_def)
  have j: "jobs_get busy_Socket 1 = Some \<lparr>j_time = 10\<rparr>" "jobs_get new_Socket 1 = None"
    "jobs busy_Socket = [(1, \<lparr>j_time = 10\<rparr>), (2, \<lparr>j_time = 20\<rparr>)]" "out busy_Socket = []"
    by (simp_all add: jobs_get_def busy_Socket_def connecting_Socket_def new_Socket_def)
  show ?thesis
    using C1_ack_dispatch [OF p(1), of "decoding (JArr [JNull, JStr ''pong''])" busy_Socket
            "JArr [JNull, JStr ''pong'']"]
          C1_ack_dispatch [OF p(1), of "decoding (JArr [JNull])" busy_Socket "JArr [JNull]"]
          C1_ack_dispatch [OF p(1), of "decoding (JArr [JObj [(''message'', JStr ''bad''),
              (''code'', JNum (JFinite 42)), (''type'', JBool True)]])" busy_Socket
            "JArr [JObj [(''message'', JStr ''bad''), (''code'', JNum (JFinite 42)),
              (''type'', JBool True)]]"]
          C1_ack_dispatch [OF p(1), of "decoding JNull" new_Socket JNull]
          C1_ack_dispatch [OF p(1), of "decoding (JArr [JStr ''oops''])" busy_Socket
            "JArr [JStr ''oops'']"]
          C1_ack_dispatch [OF p(1), of "decoding (JBool True)" busy_Socket "JBool True"]
          C1_ack_dispatch [OF p(3), of example_env busy_Socket JNull]
    by (simp add: p(2) g j data_at_def castMsg_def castCode_def castType_def)
qed

section \<open>Call ids\<close>

lemma alist_set_fresh: "map_of xs i = None \<Longrightarrow> alist_set i j xs = xs @ [(i, j)]"
  by (induction xs) (auto split: if_splits)

lemma call_unfolded:
  assumes "args \<noteq> []" "typeof (args ! 0) = T_string"
  shows "call E now args s =
     (if jobs_get s (sequence s) \<noteq> None
      then Inl (AssertionError ''ID collision.'', s\<lparr>sequence := (sequence s + 1) mod 2 ^ 32\<rparr>)
      else and_then (send_each E (call_frames E (sequence s) args)
                       (s\<lparr>sequence := (sequence s + 1) mod 2 ^ 32\<rparr>))
             (\<lambda>t. Inr (jobs_set (sequence s) \<lparr>j_time = now\<rparr> t)))"
  using assms
  by (simp add: call_def Let_def sendCall_def sendPacket_send_each call_frames_def jobs_get_def)

text \<open>
  C9. \<^verbatim>\<open>call()\<close> with a string first argument takes the current \<open>sequence\<close> as the
  call id and then increments \<open>sequence\<close> modulo \<open>2^32\<close> (whatever happens next), so
  after the call with id \<open>2^32 - 1\<close> the next id is 0. When the id already has a live job
  the call aborts with "ID collision." Otherwise the EVENT packet carrying the id is
  buffered (not connected) or written to the transport (connected), and the job is
  registered under the id at the end of the table.
\<close>

theorem C9_call_sequence:
  assumes "args \<noteq> []" "typeof (args ! 0) = T_string"
  shows
   "sequence (state_of (call E now args s)) = (sequence s + 1) mod 2 ^ 32
  \<and> (sequence s = 2 ^ 32 - 1 \<longrightarrow> sequence (state_of (call E now args s)) = 0)
  \<and> (jobs_get s (sequence s) \<noteq> None \<longrightarrow>
       call E now args s =
         Inl (AssertionError ''ID collision.'', s\<lparr>sequence := (sequence s + 1) mod 2 ^ 32\<rparr>))
  \<and> (jobs_get s (sequence s) = None \<and> \<not> connected s \<longrightarrow>
       call E now args s =
         Inr (s\<lparr>sequence := (sequence s + 1) mod 2 ^ 32,
                buffer := buffer s @ call_frames E (sequence s) args,
                jobs := jobs s @ [(sequence s, \<lparr>j_time = now\<rparr>)]\<rparr>))
  \<and> (jobs_get s (sequence s) = None \<and> connected s \<and> ws s \<noteq> None \<longrightarrow>
       call E now args s =
         Inr (s\<lparr>sequence := (sequence s + 1) mod 2 ^ 32,
                out := out s @ map (\<lambda>fr. WsSend (wire_of E s fr)) (call_frames E (sequence s) args),
                jobs := jobs s @ [(sequence s, \<lparr>j_time = now\<rparr>)]\<rparr>))"
proof -
  let ?s1 = "s\<lparr>sequence := (sequence s + 1) mod 2 ^ 32\<rparr>"
  let ?frs = "call_frames E (sequence s) args"
  note u = call_unfolded [OF assms, of E now s]
  have fresh: "alist_set (sequence s) \<lparr>j_time = now\<rparr> (jobs s) = jobs s @ [(sequence s, \<lparr>j_time = now\<rparr>)]"
    if "jobs_get s (sequence s) = None"
    using that by (simp add: jobs_get_def alist_set_fresh)
  have buffered: "call E now args s =
         Inr (s\<lparr>sequence := (sequence s + 1) mod 2 ^ 32,
                buffer := buffer s @ ?frs,
                jobs := jobs s @ [(sequence s, \<lparr>j_time = now\<rparr>)]\<rparr>)"
    if "jobs_get s (sequence s) = None" "\<not> connected s"
    using that fresh by (simp add: u send_each_buffered and_then_def jobs_set_def)
  have written: "call E now args s =
         Inr (s\<lparr>sequence := (sequence s + 1) mod 2 ^ 32,
                out := out s @ map (\<lambda>fr. WsSend (wire_of E s fr)) ?frs,
                jobs := jobs s @ [(sequence s, \<lparr>j_time = now\<rparr>)]\<rparr>)"
    if "jobs_get s (sequence s) = None" "connected s" "ws s = Some w" for w
  proof -
    have "send_each E ?frs ?s1 = Inr (?s1\<lparr>out := out ?s1 @ map (\<lambda>fr. WsSend (wire_of E ?s1 fr)) ?frs\<rparr>)"
      using that by (intro send_each_connected [where w = w]) simp_all
    then show ?thesis
      using that fresh by (simp add: u and_then_def jobs_set_def wire_of_def)
  qed
  have failed: "call E now args s = Inl (AssertionError [], ?s1)"
    if "jobs_get s (sequence s) = None" "connected s" "ws s = None"
  proof -
    have "?frs \<noteq> []" by (simp add: call_frames_def packet_frames_def)
    then have "send_each E ?frs ?s1 = Inl (AssertionError [], ?s1)"
      using that by (intro send_each_no_transport) simp_all
    then show ?thesis using that by (simp add: u and_then_def)
  qed
  have seq: "sequence (state_of (call E now args s)) = (sequence s + 1) mod 2 ^ 32"
  proof (cases "jobs_get s (sequence s) = None")
    case False
    then show ?thesis by (simp add: u state_of_def)
  next
    case True
    show ?thesis
    proof (cases "connected s")
      case False
      then show ?thesis using buffered [OF True] by (simp add: state_of_def)
    next
      case c: True
      show ?thesis
      proof (cases "ws s")
        case None
        then show ?thesis using failed [OF True c] by (simp add: state_of_def)
      next
        case (Some w)
        then show ?thesis using written [OF True c] by (simp add: state_of_def)
      qed
    qed
  qed
  have collide: "jobs_get s (sequence s) \<noteq> None \<longrightarrow>
       call E now args s = Inl (AssertionError ''ID collision.'', ?s1)"
    by (simp add: u)
  show ?thesis
    using seq collide buffered written by auto
qed


theorem C9_call_sequence_witness:
  "call example_env 5 [JStr ''ping''] (connecting_Socket\<lparr>sequence := 4294967295\<rparr>) =
     Inr (connecting_Socket\<lparr>sequence := 0,
            buffer := [\<lparr>f_type = MESSAGE, f_data = JStr ''ping'', f_binary = False\<rparr>],
            jobs := [(4294967295, \<lparr>j_time = 5\<rparr>)]\<rparr>)
   \<and> call example_env 6 [JStr ''pong'']
       (connecting_Socket\<lparr>sequence := 0,
            buffer := [\<lparr>f_type = MESSAGE, f_data = JStr ''ping'', f_binary = False\<rparr>],
            jobs := [(4294967295, \<lparr>j_time = 5\<rparr>)]\<rparr>) =
     Inr (connecting_Socket\<lparr>sequence := 1,
            buffer := [\<lparr>f_type = MESSAGE, f_data = JStr ''ping'', f_binary = False\<rparr>,
                       \<lparr>f_type = MESSAGE, f_data = JStr ''pong'', f_binary = False\<rparr>],
            jobs := [(4294967295, \<lparr>j_time = 5\<rparr>), (0, \<lparr>j_time = 6\<rparr>)]\<rparr>)
   \<and> call example_env 7 [JStr ''ping''] (busy_Socket\<lparr>sequence := 1\<rparr>) =
     Inl (AssertionError ''ID collision.'', busy_Socket\<lparr>sequence := 2\<rparr>)
   \<and> sequence (state_of (call example_env 5 [JStr ''ping'']
        (busy_Socket\<lparr>sequence := 4294967295\<rparr>))) = 0"
proof -
  have a: "[JStr ''ping''] \<noteq> []" "typeof ([JStr ''ping''] ! 0) = T_string"
    "[JStr ''pong''] \<noteq> []" "typeof ([JStr ''pong''] ! 0) = T_string"
    by simp_all
  have f: "call_frames example_env i [JStr name] =
      [\<lparr>f_type = MESSAGE, f_data = JStr name, f_binary = False\<rparr>]" for i name
    by (simp add: call_frames_def packet_frames_def example_env_def)
  have st: "\<not> connected connecting_Socket" "jobs connecting_Socket = []"
    "buffer connecting_Socket = []"
    "jobs busy_Socket = [(1, \<lparr>j_time = 10\<rparr>), (2, \<lparr>j_time = 20\<rparr>)]"
    by (simp_all add: busy_Socket_def connecting_Socket_def new_Socket_def)
  show ?thesis
    using C9_call_sequence [OF a(1,2), of example_env 5 "connecting_Socket\<lparr>sequence := 4294967295\<rparr>"]
          C9_call_sequence [OF a(3,4), of example_env 6
            "connecting_Socket\<lparr>sequence := 0,
               buffer := [\<lparr>f_type = MESSAGE, f_data = JStr ''ping'', f_binary = False\<rparr>],
               jobs := [(4294967295, \<lparr>j_time = 5\<rparr>)]\<rparr>"]
          C9_call_sequence [OF a(1,2), of example_env 7 "busy_Socket\<lparr>sequence := 1\<rparr>"]
          C9_call_sequence [OF a(1,2), of example_env 5 "busy_Socket\<lparr>sequence := 4294967295\<rparr>"]
    by (simp add: f st jobs_get_def)
qed

section \<open>The transport opens\<close>






section \<open>A destroyed session\<close>

text \<open>
  What the methods of the API can change. \<^verbatim>\<open>send\<close> either appends to the buffer or writes
  to the transport; \<^verbatim>\<open>fire\<close> and \<^verbatim>\<open>call\<close> reach the session through \<^verbatim>\<open>send\<close> only,
  \<^verbatim>\<open>call\<close> moving \<open>sequence\<close> and registering its job besides; \<^verbatim>\<open>listen\<close> and
  \<^verbatim>\<open>hook\<close> change the table they register in. None of them emits an event or hands
  anything to the application bus.
\<close>

lemma emitted_sends: "emitted (map (\<lambda>fr. WsSend (f fr)) frs) = []"
  by (induction frs) simp_all

lemma dispatched_sends: "dispatched (map (\<lambda>fr. WsSend (f fr)) frs) = []"
  by (induction frs) simp_all

lemma dispatched_append: "dispatched (xs @ ys) = dispatched xs @ dispatched ys"
  by (induction xs rule: dispatched.induct) simp_all

lemma state_of_send_each:
  "state_of (send_each E frs s) =
     (if \<not> connected s then s\<lparr>buffer := buffer s @ frs\<rparr>
      else if ws s = None then s
      else s\<lparr>out := out s @ map (\<lambda>fr. WsSend (wire_of E s fr)) frs\<rparr>)"
proof (cases "connected s")
  case False
  then show ?thesis by (simp add: send_each_buffered state_of_def)
next
  case c: True
  show ?thesis
  proof (cases "ws s")
    case None
    then show ?thesis
      using c send_each_no_transport [of s frs E]
      by (cases "frs = []") (simp_all add: state_of_def)
  next
    case (Some w)
    then show ?thesis using c by (simp add: send_each_connected state_of_def)
  qed
qed

lemma send_each_touches:
  "\<exists>b tr. state_of (send_each E frs s) = s\<lparr>buffer := b, out := tr\<rparr>
     \<and> emitted tr = emitted (out s) \<and> dispatched tr = dispatched (out s)"
proof -
  have "state_of (send_each E frs s) = s\<lparr>buffer := buffer (state_of (send_each E frs s)),
      out := out (state_of (send_each E frs s))\<rparr>"
    by (simp add: state_of_send_each)
  moreover have "emitted (out (state_of (send_each E frs s))) = emitted (out s)"
    by (simp add: state_of_send_each emitted_append emitted_sends)
  moreover have "dispatched (out (state_of (send_each E frs s))) = dispatched (out s)"
    by (simp add: state_of_send_each dispatched_append dispatched_sends)
  ultimately show ?thesis by blast
qed

lemma send_touches:
  "\<exists>b tr. state_of (send E fr s) = s\<lparr>buffer := b, out := tr\<rparr>
     \<and> emitted tr = emitted (out s) \<and> dispatched tr = dispatched (out s)"
proof -
  have "state_of (send_each E [fr] s) = state_of (send E fr s)"
    by (cases "send E fr s") (simp_all add: and_then_def)
  then show ?thesis
    using send_each_touches [of E "[fr]" s] by simp
qed

lemma fire_touches:
  "\<exists>b tr. state_of (fire E args s) = s\<lparr>buffer := b, out := tr\<rparr>
     \<and> emitted tr = emitted (out s) \<and> dispatched tr = dispatched (out s)"
proof (cases "args \<noteq> [] \<and> typeof (args ! 0) = T_string")
  case False
  then have "state_of (fire E args s) = s\<lparr>buffer := buffer s, out := out s\<rparr>"
    by (auto simp: fire_def state_of_def)
  then show ?thesis by blast
next
  case True
  then have "fire E args s =
      send_each E (packet_frames E (Packet_setData E ((Packet_new E)\<lparr>p_type := EVENT\<rparr>) (JArr args))) s"
    by (simp add: fire_def sendEvent_def sendPacket_send_each)
  then show ?thesis using send_each_touches by simp
qed

lemma call_touches:
  "\<exists>q b j tr. state_of (call E now args s) = s\<lparr>sequence := q, buffer := b, jobs := j, out := tr\<rparr>
     \<and> emitted tr = emitted (out s) \<and> dispatched tr = dispatched (out s)"
proof (cases "args \<noteq> [] \<and> typeof (args ! 0) = T_string")
  case False
  then have "state_of (call E now args s) =
      s\<lparr>sequence := sequence s, buffer := buffer s, jobs := jobs s, out := out s\<rparr>"
    by (auto simp: call_def state_of_def)
  then show ?thesis by blast
next
  case True
  let ?s1 = "s\<lparr>sequence := (sequence s + 1) mod 2 ^ 32\<rparr>"
  let ?r = "send_each E (call_frames E (sequence s) args) ?s1"
  note u = call_unfolded [of args E now s]
  from send_each_touches [of E "call_frames E (sequence s) args" ?s1]
  obtain b tr where t: "state_of ?r = ?s1\<lparr>buffer := b, out := tr\<rparr>"
    and e: "emitted tr = emitted (out s)" "dispatched tr = dispatched (out s)"
    by auto
  show ?thesis
  proof (cases "jobs_get s (sequence s) = None")
    case False
    then have "state_of (call E now args s) =
        s\<lparr>sequence := (sequence s + 1) mod 2 ^ 32, buffer := buffer s, jobs := jobs s, out := out s\<rparr>"
      using True by (simp add: u state_of_def)
    then show ?thesis by blast
  next
    case n: True
    show ?thesis
    proof (cases ?r)
      case (Inl a)
      then have "state_of (call E now args s) = state_of ?r"
        using True n by (simp add: u and_then_def state_of_def)
      then have "state_of (call E now args s) =
          s\<lparr>sequence := (sequence s + 1) mod 2 ^ 32, buffer := b, jobs := jobs s, out := tr\<rparr>"
        using t by simp
      then show ?thesis using e by blast
    next
      case (Inr x)
      then have "state_of (call E now args s) = jobs_set (sequence s) \<lparr>j_time = now\<rparr> (state_of ?r)"
        using True n by (simp add: u and_then_def state_of_def)
      then have "state_of (call E now args s) =
          s\<lparr>sequence := (sequence s + 1) mod 2 ^ 32, buffer := b,
            jobs := alist_set (sequence s) \<lparr>j_time = now\<rparr> (jobs s), out := tr\<rparr>"
        using t by (simp add: jobs_set_def)
      then show ?thesis using e by blast
    qed
  qed
qed

lemma listen_touches: "\<exists>ev. state_of (listen E event h s) = s\<lparr>events := ev\<rparr>"
proof -
  have "state_of (listen E event h s) = s\<lparr>events := events (state_of (listen E event h s))\<rparr>"
    by (simp add: listen_def state_of_def split: fnarg.splits)
  then show ?thesis by blast
qed

lemma hook_touches: "\<exists>hk. state_of (hook E event h s) = s\<lparr>hooks := hk\<rparr>"
proof -
  have "state_of (hook E event h s) = s\<lparr>hooks := hooks (state_of (hook E event h s))\<rparr>"
    by (simp add: hook_def state_of_def split: fnarg.splits)
  then show ?thesis by blast
qed


lemma destroyed_Socket_eq:
  "destroy example_env 3 connecting_Socket = Inr destroyed_Socket"
  "destroyed_Socket =
     connecting_Socket\<lparr>destroyed := True, time := 3, timer := False,
        ws := Some (detach ((new_WebSocket (url new_Socket))
                 \<lparr>binaryType := ''arraybuffer'', onopen := Session, onmessage := Session,
                  onerror := Session, onclose := Session\<rparr>)),
        listeners := (\<lambda>name. 0)(''error'' := Suc 0),
        out := [WsClose, Emit ''close'' None]\<rparr>"
  by (simp_all add: destroyed_Socket_def state_of_def destroy_def close_def stop_def emit_def
        and_then_def on_def removeAllListeners_def do_effect_def detach_def
        connecting_Socket_def new_Socket_def)

text \<open>
  C3, as stated, says that no public method mutates a destroyed session. \<^verbatim>\<open>call()\<close> on
  a session that \<^verbatim>\<open>destroy()\<close> has just torn down still takes id 0, moves \<open>sequence\<close>
  to 1, puts its frame into the buffer and registers a job.
\<close>

theorem C3_counterexample:
  "destroy example_env 3 connecting_Socket = Inr destroyed_Socket
   \<and> destroyed destroyed_Socket
   \<and> sequence destroyed_Socket = 0
   \<and> buffer destroyed_Socket = []
   \<and> jobs destroyed_Socket = []
   \<and> call example_env 5 [JStr ''ping''] destroyed_Socket =
       Inr (destroyed_Socket
             \<lparr>sequence := 1,
              buffer := [\<lparr>f_type = MESSAGE, f_data = JStr ''ping'', f_binary = False\<rparr>],
              jobs := [(0, \<lparr>j_time = 5\<rparr>)]\<rparr>)
   \<and> call example_env 5 [JStr ''ping''] destroyed_Socket \<noteq> Inr destroyed_Socket"
proof -
  note d = destroyed_Socket_eq(2)
  have "call example_env 5 [JStr ''ping''] destroyed_Socket =
       Inr (destroyed_Socket
             \<lparr>sequence := 1,
              buffer := [\<lparr>f_type = MESSAGE, f_data = JStr ''ping'', f_binary = False\<rparr>],
              jobs := [(0, \<lparr>j_time = 5\<rparr>)]\<rparr>)"
    unfolding d
    by (simp add: call_def sendCall_def sendPacket_def sendMessage_def sendFrame_def send_def
          and_then_def jobs_get_def jobs_set_def connecting_Socket_def new_Socket_def
          example_env_def)
  moreover have "destroyed destroyed_Socket" "sequence destroyed_Socket = 0"
    "buffer destroyed_Socket = []" "jobs destroyed_Socket = []"
    unfolding d by (simp_all add: connecting_Socket_def new_Socket_def)
  moreover have "destroyed_Socket
             \<lparr>sequence := 1,
              buffer := [\<lparr>f_type = MESSAGE, f_data = JStr ''ping'', f_binary = False\<rparr>],
              jobs := [(0, \<lparr>j_time = 5\<rparr>)]\<rparr> \<noteq> destroyed_Socket"
  proof
    assume "destroyed_Socket
             \<lparr>sequence := 1,
              buffer := [\<lparr>f_type = MESSAGE, f_data = JStr ''ping'', f_binary = False\<rparr>],
              jobs := [(0, \<lparr>j_time = 5\<rparr>)]\<rparr> = destroyed_Socket"
    then have "sequence (destroyed_Socket
             \<lparr>sequence := 1,
              buffer := [\<lparr>f_type = MESSAGE, f_data = JStr ''ping'', f_binary = False\<rparr>],
              jobs := [(0, \<lparr>j_time = 5\<rparr>)]\<rparr>) = sequence destroyed_Socket"
      by simp
    then show False
      using \<open>sequence destroyed_Socket = 0\<close> by simp
  qed
  ultimately show ?thesis
    using destroyed_Socket_eq(1) by simp
qed

text \<open>
  C3, amended. For every session in the destroyed state, a further \<^verbatim>\<open>destroy()\<close> is
  an idempotent no-op: it changes no state and emits no event. No call of \<^verbatim>\<open>send\<close>,
  \<^verbatim>\<open>call\<close>, \<^verbatim>\<open>fire\<close>, \<^verbatim>\<open>listen\<close> or \<^verbatim>\<open>hook\<close> emits an event or hands anything to
  the application bus, none changes \<open>connected\<close>, \<open>challenge\<close> or \<open>packet\<close>, and the
  session stays destroyed. The rest of the state is not protected by the flag, which only
  \<^verbatim>\<open>destroy\<close> reads: \<^verbatim>\<open>call\<close> leaves \<open>hooks\<close> and \<open>events\<close> alone, \<^verbatim>\<open>send\<close> and
  \<^verbatim>\<open>fire\<close> also \<open>jobs\<close> and \<open>sequence\<close>, \<^verbatim>\<open>listen\<close> everything but \<open>events\<close> and \<^verbatim>\<open>hook\<close>
  everything but \<open>hooks\<close>; but on a destroyed session that is not connected
  \<^verbatim>\<open>fire\<close> appends its frames to the buffer, \<^verbatim>\<open>call\<close> moves \<open>sequence\<close>, buffers its
  frames and registers a job, and for a name that is not blacklisted \<^verbatim>\<open>listen\<close> adds the
  handler to \<open>events\<close> and \<^verbatim>\<open>hook\<close> binds it in \<open>hooks\<close>.
\<close>

theorem C3_destroyed_session:
  assumes "destroyed s"
  shows
   "destroy E now s = Inr s
  \<and> (let t = state_of (call E now args s) in
       emitted (out t) = emitted (out s) \<and> dispatched (out t) = dispatched (out s)
       \<and> connected t = connected s \<and> challenge t = challenge s \<and> packet t = packet s
       \<and> hooks t = hooks s \<and> events t = events s \<and> destroyed t)
  \<and> (let t = state_of (send E fr s) in
       emitted (out t) = emitted (out s) \<and> dispatched (out t) = dispatched (out s)
       \<and> connected t = connected s \<and> challenge t = challenge s \<and> packet t = packet s
       \<and> hooks t = hooks s \<and> events t = events s \<and> jobs t = jobs s
       \<and> sequence t = sequence s \<and> destroyed t)
  \<and> (let t = state_of (fire E args s) in
       emitted (out t) = emitted (out s) \<and> dispatched (out t) = dispatched (out s)
       \<and> connected t = connected s \<and> challenge t = challenge s \<and> packet t = packet s
       \<and> hooks t = hooks s \<and> events t = events s \<and> jobs t = jobs s
       \<and> sequence t = sequence s \<and> destroyed t)
  \<and> (let t = state_of (listen E event h s) in
       out t = out s
       \<and> connected t = connected s \<and> challenge t = challenge s \<and> packet t = packet s
       \<and> hooks t = hooks s \<and> jobs t = jobs s \<and> sequence t = sequence s
       \<and> buffer t = buffer s \<and> destroyed t)
  \<and> (let t = state_of (hook E event h s) in
       out t = out s
       \<and> connected t = connected s \<and> challenge t = challenge s \<and> packet t = packet s
       \<and> events t = events s \<and> jobs t = jobs s \<and> sequence t = sequence s
       \<and> buffer t = buffer s \<and> destroyed t)
  \<and> (args \<noteq> [] \<and> typeof (args ! 0) = T_string \<and> \<not> connected s \<longrightarrow>
       fire E args s =
         Inr (s\<lparr>buffer := buffer s
                @ packet_frames E (Packet_setData E ((Packet_new E)\<lparr>p_type := EVENT\<rparr>) (JArr args))\<rparr>)
       \<and> (jobs_get s (sequence s) = None \<longrightarrow>
            call E now args s =
              Inr (s\<lparr>sequence := (sequence s + 1) mod 2 ^ 32,
                     buffer := buffer s @ call_frames E (sequence s) args,
                     jobs := jobs s @ [(sequence s, \<lparr>j_time = now\<rparr>)]\<rparr>)))
  \<and> (\<not> blacklist E name \<longrightarrow>
       listen E (JStr name) (Fn f) s = Inr (s\<lparr>events := (events s)(name := events s name @ [f])\<rparr>)
       \<and> (hooks s name = None \<longrightarrow>
            hook E (JStr name) (Fn f) s = Inr (s\<lparr>hooks := (hooks s)(name \<mapsto> f)\<rparr>)))"
proof -
  have d: "destroy E now s = Inr s"
    using assms by (simp add: destroy_def)
  obtain q b j tr where c: "state_of (call E now args s) = s\<lparr>sequence := q, buffer := b, jobs := j, out := tr\<rparr>"
    "emitted tr = emitted (out s)" "dispatched tr = dispatched (out s)"
    using call_touches [of E now args s] by blast
  obtain b' tr' where f: "state_of (fire E args s) = s\<lparr>buffer := b', out := tr'\<rparr>"
    "emitted tr' = emitted (out s)" "dispatched tr' = dispatched (out s)"
    using fire_touches [of E args s] by blast
  obtain b'' tr'' where sd: "state_of (send E fr s) = s\<lparr>buffer := b'', out := tr''\<rparr>"
    "emitted tr'' = emitted (out s)" "dispatched tr'' = dispatched (out s)"
    using send_touches [of E fr s] by blast
  obtain ev where l: "state_of (listen E event h s) = s\<lparr>events := ev\<rparr>"
    using listen_touches [of E event h s] by blast
  obtain hk where k: "state_of (hook E event h s) = s\<lparr>hooks := hk\<rparr>"
    using hook_touches [of E event h s] by blast
  have pf: "fire E args s =
         Inr (s\<lparr>buffer := buffer s
                @ packet_frames E (Packet_setData E ((Packet_new E)\<lparr>p_type := EVENT\<rparr>) (JArr args))\<rparr>)"
    if "args \<noteq> []" "typeof (args ! 0) = T_string" "\<not> connected s"
    using that by (simp add: fire_def sendEvent_def sendPacket_send_each send_each_buffered)
  have pc: "call E now args s =
              Inr (s\<lparr>sequence := (sequence s + 1) mod 2 ^ 32,
                     buffer := buffer s @ call_frames E (sequence s) args,
                     jobs := jobs s @ [(sequence s, \<lparr>j_time = now\<rparr>)]\<rparr>)"
    if "args \<noteq> []" "typeof (args ! 0) = T_string" "\<not> connected s" "jobs_get s (sequence s) = None"
  proof -
    have "alist_set (sequence s) \<lparr>j_time = now\<rparr> (jobs s) = jobs s @ [(sequence s, \<lparr>j_time = now\<rparr>)]"
      using that(4) by (simp add: jobs_get_def alist_set_fresh)
    then show ?thesis
      using that by (simp add: call_unfolded send_each_buffered and_then_def jobs_set_def)
  qed
  have pl: "listen E (JStr name) (Fn f) s = Inr (s\<lparr>events := (events s)(name := events s name @ [f])\<rparr>)"
    if "\<not> blacklist E name"
    using that by (simp add: listen_def)
  have ph: "hook E (JStr name) (Fn f) s = Inr (s\<lparr>hooks := (hooks s)(name \<mapsto> f)\<rparr>)"
    if "\<not> blacklist E name" "hooks s name = None"
    using that by (simp add: hook_def)
  show ?thesis
    using assms d pf pc pl ph
    by (simp add: Let_def c f l k sd)
qed


theorem C3_destroyed_session_witness:
  "destroyed destroyed_Socket
   \<and> destroy example_env 9 destroyed_Socket = Inr destroyed_Socket
   \<and> emitted (out (state_of (call example_env 5 [JStr ''ping''] destroyed_Socket))) =
       [(''close'', None)]
   \<and> connected (state_of (call example_env 5 [JStr ''ping''] destroyed_Socket)) = False
   \<and> packet (state_of (call example_env 5 [JStr ''ping''] destroyed_Socket)) = None
   \<and> call example_env 5 [JStr ''ping''] destroyed_Socket =
       Inr (destroyed_Socket
             \<lparr>sequence := 1,
              buffer := [\<lparr>f_type = MESSAGE, f_data = JStr ''ping'', f_binary = False\<rparr>],
              jobs := [(0, \<lparr>j_time = 5\<rparr>)]\<rparr>)
   \<and> fire example_env [JStr ''ping''] destroyed_Socket =
       Inr (destroyed_Socket
             \<lparr>buffer := [\<lparr>f_type = MESSAGE, f_data = JStr ''ping'', f_binary = False\<rparr>]\<rparr>)
   \<and> listen example_env (JStr ''hello'') (Fn (\<lambda>a. Inr JNull)) destroyed_Socket =
       Inr (destroyed_Socket\<lparr>events := (events destroyed_Socket)(''hello'' := [\<lambda>a. Inr JNull])\<rparr>)
   \<and> hook example_env (JStr ''hello'') (Fn (\<lambda>a. Inr JNull)) destroyed_Socket =
       Inr (destroyed_Socket\<lparr>hooks := (hooks destroyed_Socket)(''hello'' \<mapsto> (\<lambda>a. Inr JNull))\<rparr>)"
proof -
  note d = destroyed_Socket_eq(2)
  have st: "destroyed destroyed_Socket" "\<not> connected destroyed_Socket"
    "packet destroyed_Socket = None" "sequence destroyed_Socket = 0"
    "jobs destroyed_Socket = []" "buffer destroyed_Socket = []"
    "out destroyed_Socket = [WsClose, Emit ''close'' None]"
    "hooks destroyed_Socket ''hello'' = None" "events destroyed_Socket ''hello'' = []"
    unfolding d by (simp_all add: connecting_Socket_def new_Socket_def)
  have ar: "[JStr ''ping''] \<noteq> []" "typeof ([JStr ''ping''] ! 0) = T_string"
    "\<not> blacklist example_env ''hello''" "jobs_get destroyed_Socket 0 = None"
    by (simp_all add: example_env_def jobs_get_def st)
  have fr: "call_frames example_env i [JStr ''ping''] =
      [\<lparr>f_type = MESSAGE, f_data = JStr ''ping'', f_binary = False\<rparr>]"
    "packet_frames example_env (Packet_setData example_env
        ((Packet_new example_env)\<lparr>p_type := EVENT\<rparr>) (JArr [JStr ''ping''])) =
      [\<lparr>f_type = MESSAGE, f_data = JStr ''ping'', f_binary = False\<rparr>]" for i
    by (simp_all add: call_frames_def packet_frames_def example_env_def)
  note C3 = C3_destroyed_session [OF st(1), where E = example_env and args = "[JStr ''ping'']"
      and name = "''hello''" and f = "\<lambda>a. Inr JNull", unfolded Let_def]
  have a: "destroy example_env 9 destroyed_Socket = Inr destroyed_Socket"
    using C3 [where now = 9] by blast
  have b: "emitted (out (state_of (call example_env 5 [JStr ''ping''] destroyed_Socket))) =
      emitted (out destroyed_Socket)"
    "connected (state_of (call example_env 5 [JStr ''ping''] destroyed_Socket)) =
      connected destroyed_Socket"
    "packet (state_of (call example_env 5 [JStr ''ping''] destroyed_Socket)) =
      packet destroyed_Socket"
    using C3 [where now = 5] by blast+
  have c: "call example_env 5 [JStr ''ping''] destroyed_Socket =
       Inr (destroyed_Socket
             \<lparr>sequence := (sequence destroyed_Socket + 1) mod 2 ^ 32,
              buffer := buffer destroyed_Socket @ call_frames example_env (sequence destroyed_Socket) [JStr ''ping''],
              jobs := jobs destroyed_Socket @ [(sequence destroyed_Socket, \<lparr>j_time = 5\<rparr>)]\<rparr>)"
    using C3 [where now = 5] ar st(2,4) by simp
  have f: "fire example_env [JStr ''ping''] destroyed_Socket =
       Inr (destroyed_Socket\<lparr>buffer := buffer destroyed_Socket
           @ packet_frames example_env (Packet_setData example_env
               ((Packet_new example_env)\<lparr>p_type := EVENT\<rparr>) (JArr [JStr ''ping'']))\<rparr>)"
    using C3 [where now = 5] ar st(2) by blast
  have l: "listen example_env (JStr ''hello'') (Fn (\<lambda>a. Inr JNull)) destroyed_Socket =
       Inr (destroyed_Socket\<lparr>events := (events destroyed_Socket)
              (''hello'' := events destroyed_Socket ''hello'' @ [\<lambda>a. Inr JNull])\<rparr>)"
    and h: "hook example_env (JStr ''hello'') (Fn (\<lambda>a. Inr JNull)) destroyed_Socket =
       Inr (destroyed_Socket\<lparr>hooks := (hooks destroyed_Socket)(''hello'' \<mapsto> (\<lambda>a. Inr JNull))\<rparr>)"
    using C3 [where now = 5] ar(3) st(8) by blast+
  show ?thesis
    unfolding c f l by (simp add: a h st fr state_of_def)
qed

section \<open>Blacklisted event names\<close>

lemma dispatched_send_each:
  "dispatched (out (state_of (send_each E frs s))) = dispatched (out s)"
proof (induction frs arbitrary: s)
  case Nil
  show ?case by (simp add: state_of_def)
next
  case (Cons fr frs)
  show ?case
  proof (cases "send E fr s")
    case (Inl a)
    then have "snd a = s"
      by (auto simp: send_def split: if_splits option.splits)
    then show ?thesis using Inl by (cases a) (simp add: and_then_def state_of_def)
  next
    case (Inr t)
    then have "dispatched (out t) = dispatched (out s)"
      by (auto simp: send_def do_effect_def dispatched_append split: if_splits option.splits)
    then show ?thesis using Inr Cons.IH [of t] by (simp add: and_then_def)
  qed
qed

lemma handleEvent_blacklisted:
  "blacklist E name \<Longrightarrow>
   handleEvent E (JStr name # rest) s = sendPacket E (blacklisted_reply E name) s"
  by (simp add: handleEvent_def sendError_def error_object_def blacklisted_error_def
        blacklisted_reply_def castMsg_def castCode_def castType_def)

text \<open>
  C4, as stated, includes \<^verbatim>\<open>fire\<close> among the operations that reject a blacklisted
  name. \<^verbatim>\<open>fire\<close> checks only that its first argument is a string: with \<^verbatim>\<open>'error'\<close>
  blacklisted, \<^verbatim>\<open>fire('error', 'boom')\<close> returns normally and its EVENT packet is
  buffered, or written to the transport when the session is connected.
\<close>

theorem C4_counterexample:
  "blacklist example_env ''error''
   \<and> fire example_env [JStr ''error'', JStr ''boom''] connecting_Socket =
       Inr (connecting_Socket
             \<lparr>buffer := [\<lparr>f_type = MESSAGE, f_data = JStr ''error'', f_binary = False\<rparr>]\<rparr>)
   \<and> fire example_env [JStr ''error'', JStr ''boom''] (connecting_Socket\<lparr>connected := True\<rparr>) =
       Inr (connecting_Socket\<lparr>connected := True, out := [WsSend (Text ''4error'')]\<rparr>)"
  by (simp add: fire_def sendEvent_def sendPacket_def sendMessage_def sendFrame_def send_def
        and_then_def do_effect_def connecting_Socket_def new_Socket_def example_env_def)

text \<open>
  C4, amended. For every blacklisted event name, \<^verbatim>\<open>listen(name, fn)\<close> and
  \<^verbatim>\<open>hook(name, fn)\<close> fail with an assertion error and leave the session unchanged, and
  the dispatch of an inbound fire-and-forget EVENT packet carrying that name hands nothing
  to the application bus: it answers with an ERROR packet that says
  "Cannot emit blacklisted event".
\<close>

theorem C4_blacklist:
  assumes "blacklist E name"
  shows
   "listen E (JStr name) (Fn h) s = Inl (AssertionError ''Blacklisted event.'', s)
  \<and> hook E (JStr name) (Fn h) s =
      Inl (AssertionError (if hooks s name \<noteq> None then ''Hook already bound.''
                           else ''Blacklisted event.''), s)
  \<and> handleEvent E (JStr name # rest) s = sendPacket E (blacklisted_reply E name) s
  \<and> ((p_type p = EVENT \<or> p_type p = BINARY_EVENT) \<and> p_id p = -1
       \<and> Packet_getData E p = Inr (JArr (JStr name # rest)) \<longrightarrow>
       handlePacket E p s = sendPacket E (blacklisted_reply E name) s
       \<and> dispatched (out (state_of (handlePacket E p s))) = dispatched (out s))"
proof -
  have "dispatched (out (state_of (sendPacket E (blacklisted_reply E name) s))) = dispatched (out s)"
    by (simp add: sendPacket_send_each dispatched_send_each)
  then show ?thesis
    using assms handleEvent_blacklisted [OF assms, of rest s]
    by (auto simp: listen_def hook_def handlePacket_def)
qed


theorem C4_blacklist_witness:
  "blacklist (decoding (JArr [JStr ''error'', JStr ''boom''])) ''error''
   \<and> listen (decoding (JArr [JStr ''error'', JStr ''boom''])) (JStr ''error'') (Fn (\<lambda>a. Inr JNull))
        connecting_Socket =
       Inl (AssertionError ''Blacklisted event.'', connecting_Socket)
   \<and> hook (decoding (JArr [JStr ''error'', JStr ''boom''])) (JStr ''error'') (Fn (\<lambda>a. Inr JNull))
        connecting_Socket =
       Inl (AssertionError ''Blacklisted event.'', connecting_Socket)
   \<and> handlePacket (decoding (JArr [JStr ''error'', JStr ''boom''])) event_packet
        (connecting_Socket\<lparr>connected := True, events := (\<lambda>name. [\<lambda>a. Inr JNull])\<rparr>) =
       Inr (connecting_Socket\<lparr>connected := True, events := (\<lambda>name. [\<lambda>a. Inr JNull]),
              out := [WsSend (Text ''4data'')]\<rparr>)"
proof -
  let ?E = "decoding (JArr [JStr ''error'', JStr ''boom''])"
  let ?S = "connecting_Socket\<lparr>connected := True, events := (\<lambda>name. [\<lambda>a. Inr JNull])\<rparr>"
  have b: "blacklist ?E ''error''"
    by (simp add: decoding_def example_env_def)
  have p: "(p_type event_packet = EVENT \<or> p_type event_packet = BINARY_EVENT)
      \<and> p_id event_packet = -1
      \<and> Packet_getData ?E event_packet = Inr (JArr (JStr ''error'' # [JStr ''boom'']))"
    by (simp add: event_packet_def decoding_def)
  have h: "hooks connecting_Socket ''error'' = None"
    by (simp add: connecting_Socket_def new_Socket_def)
  have r: "sendPacket ?E (blacklisted_reply ?E ''error'') ?S =
      Inr (connecting_Socket\<lparr>connected := True, events := (\<lambda>name. [\<lambda>a. Inr JNull]),
              out := [WsSend (Text ''4data'')]\<rparr>)"
    by (simp add: sendPacket_def sendMessage_def sendFrame_def send_def and_then_def do_effect_def
          blacklisted_reply_def decoding_def example_env_def connecting_Socket_def new_Socket_def)
  show ?thesis
    using C4_blacklist [OF b, of "\<lambda>a. Inr JNull" connecting_Socket "[JStr ''boom'']" event_packet]
          C4_blacklist [OF b, of "\<lambda>a. Inr JNull" ?S "[JStr ''boom'']" event_packet]
    by (simp only: b p h r simp_thms if_False if_True not_False_eq_True not_True_eq_False)
qed

section \<open>The transport closes\<close>

text \<open>\<^verbatim>\<open>destroy()\<close> emits \<^verbatim>\<open>'close'\<close> only, so it returns whoever listens.\<close>

lemma destroy_returns:
  "destroy E now s =
     Inr (if destroyed s then s
          else on ''error'' (removeAllListeners
                 (do_effect (Emit ''close'' None)
                    (stop (close now (s\<lparr>destroyed := True, buffer := []\<rparr>))))))"
  by (simp add: destroy_def Let_def emit_def and_then_def)

lemma emitted_destroy:
  "emitted (out (state_of (destroy E now s))) =
     emitted (out s) @ (if destroyed s then [] else [(''close'', None)])"
  by (simp add: destroy_returns state_of_def on_def removeAllListeners_def do_effect_def stop_def
        emitted_append emitted_close)

lemma emit_listened:
  "name \<noteq> ''error'' \<or> listeners s ''error'' \<noteq> 0 \<Longrightarrow>
   emit E name arg s = Inr (do_effect (Emit name arg) s)"
  by (auto simp: emit_def)

lemma emit_unheard:
  "listeners s ''error'' = 0 \<Longrightarrow> emit E ''error'' (Some (Error m ps)) s = Inl (Error m ps, s)"
  by (simp add: emit_def)

lemma state_of_Inr: "state_of (Inr s) = s"
  by (simp add: state_of_def)

lemma after_close_event:
  "emitted (out (state_of (if inbound s then destroy E now s else Inr (close now s)))) =
     emitted (out s) @ (if inbound s \<and> \<not> destroyed s then [(''close'', None)] else [])"
  by (simp add: emitted_destroy emitted_close state_of_Inr)

text \<open>
  C5, as stated, says that a close with code 1000 or 1001 emits no error, and that in all
  cases the session is then destroyed or closed. When the session is not connected yet,
  \<^verbatim>\<open>onClose\<close> emits the error "Could not connect." for these codes too. A session with
  a listener for \<^verbatim>\<open>'error'\<close> goes on to \<^verbatim>\<open>close()\<close>; on a session without one, as it
  is after \<^verbatim>\<open>connect\<close>, the emit throws the error out of \<^verbatim>\<open>onClose\<close>, and the session
  is left as it was: not closed, its transport still attached.
\<close>

theorem C5_counterexample:
  "\<not> connected connecting_Socket
   \<and> listeners connecting_Socket ''error'' = 0
   \<and> onClose example_env 9 1000 [] connecting_Socket =
       Inl (Error ''Could not connect.'' [], connecting_Socket)
   \<and> onClose example_env 9 1006 [] (connecting_Socket\<lparr>connected := True\<rparr>) =
       Inl (Error ''Websocket Closed: Unknown reason (code=ABNORMAL_CLOSURE).''
              [(''reason'', JStr []), (''code'', jsint 1006)],
            connecting_Socket\<lparr>connected := True\<rparr>)
   \<and> emitted (out (state_of (onClose example_env 9 1000 [] (on ''error'' connecting_Socket)))) =
       [(''error'', Some (Error ''Could not connect.'' []))]
   \<and> emitted (out (state_of (onClose example_env 9 1001 ''going away''
                               (on ''error'' (connecting_Socket\<lparr>inbound := True\<rparr>))))) =
       [(''error'', Some (Error ''Could not connect.'' [])), (''close'', None)]"
proof -
  have st: "\<not> connected connecting_Socket" "\<not> inbound connecting_Socket"
    "\<not> destroyed connecting_Socket" "out connecting_Socket = []"
    "listeners connecting_Socket = (\<lambda>name. 0)"
    by (simp_all add: connecting_Socket_def new_Socket_def)
  show ?thesis
    by (simp add: onClose_def emit_def and_then_def on_def do_effect_def emitted_close
          emitted_destroy emitted_append state_of_Inr st example_env_def)
qed

text \<open>
  C5, amended. On a transport close event with code 1000 or 1001, a connected session
  emits no error and goes on: an inbound session destroys itself, an outbound session
  calls \<^verbatim>\<open>close()\<close>. In the other cases an error is emitted first: "Could not connect."
  for code 1000 or 1001 on a session that is not connected; for any other code an error
  whose message names the reason ("Unknown reason" when empty) and the textual code from
  the codes table (\<^verbatim>\<open>UNKNOWN_CODE\<close> when the table has none), and which carries the reason
  and the numeric code. When the session has a listener for \<^verbatim>\<open>'error'\<close>, the error is
  handed to it and then the inbound session destroys itself and the outbound session calls
  \<^verbatim>\<open>close()\<close>, no other error being emitted. When it has none, the emit throws the
  error out of \<^verbatim>\<open>onClose\<close>: the session is neither destroyed nor closed, and is left
  as it was. \<^verbatim>\<open>destroy()\<close> itself always returns.
\<close>

theorem C5_onClose:
  "((code = 1000 \<or> code = 1001) \<and> connected s \<longrightarrow>
      onClose E now code reason s = (if inbound s then destroy E now s else Inr (close now s))
      \<and> filter (\<lambda>(n, a). n = ''error'') (emitted (out (state_of (onClose E now code reason s)))) =
          filter (\<lambda>(n, a). n = ''error'') (emitted (out s)))
  \<and> (listeners s ''error'' \<noteq> 0 \<longrightarrow>
      ((code = 1000 \<or> code = 1001) \<and> \<not> connected s \<longrightarrow>
         onClose E now code reason s =
           (if inbound s then destroy E now else (\<lambda>t. Inr (close now t)))
             (do_effect (Emit ''error'' (Some (Error ''Could not connect.'' []))) s))
    \<and> (code \<noteq> 1000 \<and> code \<noteq> 1001 \<longrightarrow>
         onClose E now code reason s =
           (if inbound s then destroy E now else (\<lambda>t. Inr (close now t)))
             (do_effect
                (Emit ''error''
                   (Some (Error (''Websocket Closed: ''
                                 @ (if reason = [] then ''Unknown reason'' else reason)
                                 @ '' (code=''
                                 @ (case codes E code of
                                      None \<Rightarrow> ''UNKNOWN_CODE''
                                    | Some c \<Rightarrow> if c = [] then ''UNKNOWN_CODE'' else c)
                                 @ '').'')
                            [(''reason'', JStr reason), (''code'', jsint code)]))) s))
    \<and> (\<exists>t. onClose E now code reason s = Inr t)
    \<and> filter (\<lambda>(n, a). n = ''error'') (emitted (out (state_of (onClose E now code reason s)))) =
        filter (\<lambda>(n, a). n = ''error'') (emitted (out s))
        @ (if code = 1000 \<or> code = 1001
           then (if connected s then [] else [(''error'', Some (Error ''Could not connect.'' []))])
           else [(''error'',
                  Some (Error (''Websocket Closed: ''
                             @ (if reason = [] then ''Unknown reason'' else reason)
                             @ '' (code=''
                             @ (case codes E code of
                                  None \<Rightarrow> ''UNKNOWN_CODE''
                                | Some c \<Rightarrow> if c = [] then ''UNKNOWN_CODE'' else c)
                             @ '').'')
                        [(''reason'', JStr reason), (''code'', jsint code)]))]))
  \<and> (listeners s ''error'' = 0 \<longrightarrow>
      ((code = 1000 \<or> code = 1001) \<and> \<not> connected s \<longrightarrow>
         onClose E now code reason s = Inl (Error ''Could not connect.'' [], s))
    \<and> (code \<noteq> 1000 \<and> code \<noteq> 1001 \<longrightarrow>
         onClose E now code reason s =
           Inl (Error (''Websocket Closed: ''
                       @ (if reason = [] then ''Unknown reason'' else reason)
                       @ '' (code=''
                       @ (case codes E code of
                            None \<Rightarrow> ''UNKNOWN_CODE''
                          | Some c \<Rightarrow> if c = [] then ''UNKNOWN_CODE'' else c)
                       @ '').'')
                  [(''reason'', JStr reason), (''code'', jsint code)], s)))
  \<and> (\<exists>t. destroy E now s = Inr t)"
proof -
  let ?err = "Error (''Websocket Closed: ''
                       @ (if reason = [] then ''Unknown reason'' else reason)
                       @ '' (code=''
                       @ (case codes E code of
                            None \<Rightarrow> ''UNKNOWN_CODE''
                          | Some c \<Rightarrow> if c = [] then ''UNKNOWN_CODE'' else c)
                       @ '').'')
                  [(''reason'', JStr reason), (''code'', jsint code)]"
  have fl: "inbound (do_effect e s) = inbound s" "destroyed (do_effect e s) = destroyed s"
    "out (do_effect e s) = out s @ [e]" for e
    by (simp_all add: do_effect_def)
  have a: "onClose E now code reason s = (if inbound s then destroy E now s else Inr (close now s))"
    if "code = 1000 \<or> code = 1001" "connected s"
    using that by (auto simp: onClose_def and_then_def)
  have b: "onClose E now code reason s =
           (if inbound s then destroy E now else (\<lambda>t. Inr (close now t)))
             (do_effect (Emit ''error'' (Some (Error ''Could not connect.'' []))) s)"
    if "listeners s ''error'' \<noteq> 0" "code = 1000 \<or> code = 1001" "\<not> connected s"
    using that by (auto simp: onClose_def and_then_def emit_listened fl)
  have c: "onClose E now code reason s =
           (if inbound s then destroy E now else (\<lambda>t. Inr (close now t)))
             (do_effect (Emit ''error'' (Some ?err)) s)"
    if "listeners s ''error'' \<noteq> 0" "code \<noteq> 1000 \<and> code \<noteq> 1001"
    using that by (simp add: onClose_def Let_def and_then_def emit_listened fl)
  have d: "onClose E now code reason s = Inl (Error ''Could not connect.'' [], s)"
    if "listeners s ''error'' = 0" "code = 1000 \<or> code = 1001" "\<not> connected s"
    using that by (auto simp: onClose_def and_then_def emit_unheard)
  have e: "onClose E now code reason s = Inl (?err, s)"
    if "listeners s ''error'' = 0" "code \<noteq> 1000 \<and> code \<noteq> 1001"
    using that by (simp add: onClose_def Let_def and_then_def emit_unheard)
  have r: "\<exists>t. destroy E now s = Inr t" for s
    by (simp add: destroy_returns)
  have fa: "filter (\<lambda>(n, a). n = ''error'') (emitted (out (state_of (onClose E now code reason s)))) =
          filter (\<lambda>(n, a). n = ''error'') (emitted (out s))"
    if "code = 1000 \<or> code = 1001" "connected s"
    using that by (simp add: a after_close_event)
  have g: "filter (\<lambda>(n, a). n = ''error'')
        (emitted (out (state_of ((if inbound s then destroy E now else (\<lambda>t. Inr (close now t)))
             (do_effect (Emit ''error'' x) s))))) =
      filter (\<lambda>(n, a). n = ''error'') (emitted (out s)) @ [(''error'', x)]" for x
  proof -
    have "emitted (out (state_of ((if inbound s then destroy E now else (\<lambda>t. Inr (close now t)))
             (do_effect (Emit ''error'' x) s)))) =
        emitted (out s) @ (''error'', x)
          # (if inbound s \<and> \<not> destroyed s then [(''close'', None)] else [])"
      using after_close_event [of "do_effect (Emit ''error'' x) s" E now]
      by (simp add: fl emitted_append split: if_splits)
    then show ?thesis by simp
  qed
  have ret: "\<exists>t. onClose E now code reason s = Inr t" if "listeners s ''error'' \<noteq> 0"
  proof (cases "code = 1000 \<or> code = 1001")
    case True
    then show ?thesis using a b r that by (cases "connected s") auto
  next
    case False
    then show ?thesis using c r that by auto
  qed
  have fb: "filter (\<lambda>(n, a). n = ''error'') (emitted (out (state_of (onClose E now code reason s)))) =
        filter (\<lambda>(n, a). n = ''error'') (emitted (out s))
        @ (if code = 1000 \<or> code = 1001
           then (if connected s then [] else [(''error'', Some (Error ''Could not connect.'' []))])
           else [(''error'', Some ?err)])"
    if l: "listeners s ''error'' \<noteq> 0"
  proof (cases "code = 1000 \<or> code = 1001")
    case t: True
    show ?thesis
    proof (cases "connected s")
      case True
      then show ?thesis using fa t by simp
    next
      case False
      then show ?thesis using b [OF l t] g t by simp
    qed
  next
    case False
    then show ?thesis using c [OF l] g by simp
  qed
  show ?thesis
    using a b c d e r [of s] fa fb ret by blast
qed

theorem C5_onClose_witness:
  "onClose example_env 9 1000 [] (connecting_Socket\<lparr>connected := True\<rparr>) =
     Inr (close 9 (connecting_Socket\<lparr>connected := True\<rparr>))
   \<and> filter (\<lambda>(n, a). n = ''error'')
       (emitted (out (state_of (onClose example_env 9 1000 [] (connecting_Socket\<lparr>connected := True\<rparr>))))) = []
   \<and> onClose example_env 9 1001 [] (connecting_Socket\<lparr>connected := True, inbound := True\<rparr>) =
     destroy example_env 9 (connecting_Socket\<lparr>connected := True, inbound := True\<rparr>)
   \<and> onClose example_env 9 1000 [] (on ''error'' connecting_Socket) =
     Inr (close 9 (do_effect (Emit ''error'' (Some (Error ''Could not connect.'' [])))
                     (on ''error'' connecting_Socket)))
   \<and> onClose example_env 9 1000 [] connecting_Socket =
     Inl (Error ''Could not connect.'' [], connecting_Socket)
   \<and> filter (\<lambda>(n, a). n = ''error'')
       (emitted (out (state_of (onClose example_env 9 1006 []
           (on ''error'' (connecting_Socket\<lparr>connected := True\<rparr>)))))) =
     [(''error'', Some (Error ''Websocket Closed: Unknown reason (code=ABNORMAL_CLOSURE).''
                          [(''reason'', JStr []), (''code'', jsint 1006)]))]
   \<and> onClose example_env 9 4000 ''bye'' (connecting_Socket\<lparr>connected := True\<rparr>) =
     Inl (Error ''Websocket Closed: bye (code=UNKNOWN_CODE).''
            [(''reason'', JStr ''bye''), (''code'', jsint 4000)],
          connecting_Socket\<lparr>connected := True\<rparr>)"
proof -
  have st: "\<not> connected connecting_Socket" "\<not> inbound connecting_Socket"
    "out connecting_Socket = []" "listeners connecting_Socket ''error'' = 0"
    by (simp_all add: connecting_Socket_def new_Socket_def)
  have li: "listeners (on ''error'' t) ''error'' \<noteq> 0" "inbound (on ''error'' t) = inbound t"
    "connected (on ''error'' t) = connected t" "out (on ''error'' t) = out t" for t
    by (simp_all add: on_def)
  have c: "codes example_env 1006 = Some ''ABNORMAL_CLOSURE''" "codes example_env 4000 = None"
    by (simp_all add: example_env_def)
  let ?C = "connecting_Socket\<lparr>connected := True\<rparr>"
  let ?I = "connecting_Socket\<lparr>connected := True, inbound := True\<rparr>"
  note C5 = C5_onClose [where E = example_env and now = 9]
  have a1: "onClose example_env 9 1000 [] ?C = Inr (close 9 ?C)"
    and a2: "filter (\<lambda>(n, a). n = ''error'')
       (emitted (out (state_of (onClose example_env 9 1000 [] ?C)))) = []"
    using C5 [where code = 1000 and s = ?C and reason = "[]"]
    by (simp_all (no_asm_use) add: st) blast+
  have a3: "onClose example_env 9 1001 [] ?I = destroy example_env 9 ?I"
    using C5 [where code = 1001 and s = ?I and reason = "[]"]
    by (simp (no_asm_use) add: st) blast
  have a4: "onClose example_env 9 1000 [] (on ''error'' connecting_Socket) =
     Inr (close 9 (do_effect (Emit ''error'' (Some (Error ''Could not connect.'' [])))
                     (on ''error'' connecting_Socket)))"
    using C5 [where code = 1000 and s = "on ''error'' connecting_Socket" and reason = "[]"]
    by (simp (no_asm_use) add: st li) blast
  have a5: "onClose example_env 9 1000 [] connecting_Socket =
     Inl (Error ''Could not connect.'' [], connecting_Socket)"
    using C5 [where code = 1000 and s = connecting_Socket and reason = "[]"]
    by (simp (no_asm_use) add: st) blast
  have a6: "filter (\<lambda>(n, a). n = ''error'')
       (emitted (out (state_of (onClose example_env 9 1006 [] (on ''error'' ?C))))) =
     [(''error'', Some (Error ''Websocket Closed: Unknown reason (code=ABNORMAL_CLOSURE).''
                          [(''reason'', JStr []), (''code'', jsint 1006)]))]"
    using C5 [where code = 1006 and s = "on ''error'' ?C" and reason = "[]"]
    by (simp (no_asm_use) add: st li c) blast
  have a7: "onClose example_env 9 4000 ''bye'' ?C =
     Inl (Error ''Websocket Closed: bye (code=UNKNOWN_CODE).''
            [(''reason'', JStr ''bye''), (''code'', jsint 4000)], ?C)"
    using C5 [where code = 4000 and s = ?C and reason = "''bye''"]
    by (simp (no_asm_use) add: st c) blast
  show ?thesis
    using a1 a2 a3 a4 a5 a6 a7 by blast
qed

section \<open>Reassembly of a packet with attachments\<close>

lemma handleMessage_attach:
  "packet s = Some p \<Longrightarrow> f_binary fr \<Longrightarrow> int (length (buffers p)) + 1 \<noteq> attachments p \<Longrightarrow>
   handleMessage E fr s = Inr (s\<lparr>packet := Some (p\<lparr>buffers := buffers p @ [f_data fr]\<rparr>)\<rparr>)"
  by (simp add: handleMessage_def Let_def)

lemma handleMessage_complete:
  "packet s = Some p \<Longrightarrow> f_binary fr \<Longrightarrow> int (length (buffers p)) + 1 = attachments p \<Longrightarrow>
   handleMessage E fr s = handlePacket E (p\<lparr>buffers := buffers p @ [f_data fr]\<rparr>) (s\<lparr>packet := None\<rparr>)"
  by (simp add: handleMessage_def Let_def)

lemma on_frames_attach:
  "packet s = Some p \<Longrightarrow> \<forall>(now, fr) \<in> set frs. f_type fr = MESSAGE \<and> f_binary fr \<Longrightarrow>
   int (length (buffers p) + length frs) < attachments p \<Longrightarrow>
   on_frames E frs s =
     Inr (s\<lparr>packet := Some (p\<lparr>buffers := buffers p @ map (f_data \<circ> snd) frs\<rparr>)\<rparr>)"
proof (induction frs arbitrary: s p)
  case Nil
  then show ?case by simp
next
  case (Cons a frs)
  obtain now fr where a: "a = (now, fr)" by (cases a)
  let ?p1 = "p\<lparr>buffers := buffers p @ [f_data fr]\<rparr>"
  let ?s1 = "s\<lparr>packet := Some ?p1\<rparr>"
  have fr: "f_type fr = MESSAGE" "f_binary fr" using Cons.prems(2) a by auto
  have "int (length (buffers p)) + 1 \<noteq> attachments p" using Cons.prems(3) by simp
  then have "handleMessage E fr s = Inr ?s1"
    using Cons.prems(1) fr by (intro handleMessage_attach)
  then have step: "on_frame E now fr s = Inr ?s1"
    using fr by (simp add: on_frame_def handleFrame_def)
  have "on_frames E frs ?s1 =
      Inr (?s1\<lparr>packet := Some (?p1\<lparr>buffers := buffers ?p1 @ map (f_data \<circ> snd) frs\<rparr>)\<rparr>)"
    using Cons.prems by (intro Cons.IH) auto
  then show ?case
    by (simp add: a step and_then_def)
qed

lemma on_frames_append:
  "on_frames E (xs @ ys) s = and_then (on_frames E xs s) (on_frames E ys)"
proof (induction xs arbitrary: s)
  case Nil
  show ?case by (simp add: and_then_def)
next
  case (Cons a xs)
  obtain now fr where a: "a = (now, fr)" by (cases a)
  show ?case
    by (cases "on_frame E now fr s") (simp_all add: a and_then_def Cons.IH)
qed


lemma on_frames_reassemble:
  assumes "packet s = Some p" "\<forall>(now, fr) \<in> set frs. f_type fr = MESSAGE \<and> f_binary fr"
    "frs \<noteq> []" "int (length (buffers p) + length frs) = attachments p"
  shows "on_frames E frs s =
     (case handlePacket E (p\<lparr>buffers := buffers p @ map (f_data \<circ> snd) frs\<rparr>) (s\<lparr>packet := None\<rparr>) of
        Inl (e, t) \<Rightarrow> emit E ''error'' (Some e) t
      | Inr t \<Rightarrow> Inr t)"
proof -
  obtain xs now fr where frs: "frs = xs @ [(now, fr)]"
    using assms(3) by (metis append_butlast_last_id surj_pair)
  let ?p1 = "p\<lparr>buffers := buffers p @ map (f_data \<circ> snd) xs\<rparr>"
  let ?s1 = "s\<lparr>packet := Some ?p1\<rparr>"
  have fr: "f_type fr = MESSAGE" "f_binary fr"
    using assms(2) frs by auto
  have "on_frames E xs s = Inr ?s1"
    using assms frs by (intro on_frames_attach) auto
  then have a: "on_frames E frs s = on_frame E now fr ?s1"
    by (cases "on_frame E now fr ?s1") (simp_all add: frs on_frames_append and_then_def)
  have "int (length (buffers ?p1)) + 1 = attachments ?p1"
    using assms(4) frs by simp
  then have "handleMessage E fr ?s1 =
      handlePacket E (?p1\<lparr>buffers := buffers ?p1 @ [f_data fr]\<rparr>) (?s1\<lparr>packet := None\<rparr>)"
    using fr by (intro handleMessage_complete) simp_all
  then have b: "on_frame E now fr ?s1 =
     (case handlePacket E (?p1\<lparr>buffers := buffers ?p1 @ [f_data fr]\<rparr>) (?s1\<lparr>packet := None\<rparr>) of
        Inl (e, t) \<Rightarrow> emit E ''error'' (Some e) t
      | Inr t \<Rightarrow> Inr t)"
    using fr by (simp add: on_frame_def handleFrame_def)
  show ?thesis
    unfolding a b by (simp add: frs)
qed

text \<open>
  C6, as stated, asks of every frame that arrives during a reassembly that it be a binary
  MESSAGE frame, a non-binary arrival raising a protocol error. Only MESSAGE frames reach
  \<^verbatim>\<open>handleMessage\<close>; a frame of another type is dispatched by its type whether or not a
  packet is in reassembly. A textual PING that arrives while a packet waits for its
  attachments is answered with a PONG: nothing is thrown, no error is emitted, nothing is
  appended, and the packet stays in reassembly.
\<close>

theorem C6_counterexample:
  "packet reassembling_Socket = Some bin_packet
   \<and> handleFrame example_env 0 \<lparr>f_type = PING, f_data = JStr [], f_binary = False\<rparr>
       reassembling_Socket =
       Inr (reassembling_Socket\<lparr>out := [WsSend (Text ''3'')]\<rparr>)
   \<and> on_frame example_env 0 \<lparr>f_type = PING, f_data = JStr [], f_binary = False\<rparr>
       reassembling_Socket =
       Inr (reassembling_Socket\<lparr>out := [WsSend (Text ''3'')]\<rparr>)
   \<and> emitted (out (state_of (on_frame example_env 0
         \<lparr>f_type = PING, f_data = JStr [], f_binary = False\<rparr> reassembling_Socket))) = []"
  by (simp add: state_of_def on_frame_def handleFrame_def handlePing_def sendPong_def sendFrame_def send_def
        do_effect_def reassembling_Socket_def open_Socket_def connecting_Socket_def
        new_Socket_def example_env_def)

text \<open>
  C6, amended. The session has one slot for a packet in reassembly, and the frames that
  are checked against it are the MESSAGE frames (\<^verbatim>\<open>handleFrame\<close> gives them to
  \<^verbatim>\<open>handleMessage\<close>). While the slot is taken, a MESSAGE frame that is not binary makes the handler throw
  "Received non-binary frame as attachment." and leaves the session as it is (so a second
  textual packet cannot start a second reassembly); the data of a binary MESSAGE frame is
  appended to \<^verbatim>\<open>packet.buffers\<close>, so that binary MESSAGE frames fewer than the missing
  attachments leave the packet in the slot with their data appended in arrival order; and
  with the frame that makes \<^verbatim>\<open>packet.buffers.length\<close> equal to \<^verbatim>\<open>packet.attachments\<close>
  the slot is cleared and the packet is dispatched (what the dispatch throws is emitted as
  an error). While the slot is empty, a textual MESSAGE that decodes to a packet with
  \<open>attachments > 0\<close> puts the packet into the slot instead of dispatching it; a packet
  without attachments is dispatched at once.
\<close>

theorem C6_reassembly:
  "(f_type fr = MESSAGE \<longrightarrow> handleFrame E now fr s = handleMessage E fr s)
  \<and> (packet s = Some p \<longrightarrow>
       (\<not> f_binary fr \<longrightarrow>
          handleMessage E fr s = Inl (Error ''Received non-binary frame as attachment.'' [], s))
     \<and> (f_binary fr \<and> int (length (buffers p)) + 1 \<noteq> attachments p \<longrightarrow>
          handleMessage E fr s = Inr (s\<lparr>packet := Some (p\<lparr>buffers := buffers p @ [f_data fr]\<rparr>)\<rparr>))
     \<and> (f_binary fr \<and> int (length (buffers p)) + 1 = attachments p \<longrightarrow>
          handleMessage E fr s =
            handlePacket E (p\<lparr>buffers := buffers p @ [f_data fr]\<rparr>) (s\<lparr>packet := None\<rparr>))
     \<and> ((\<forall>(t, fr) \<in> set frs. f_type fr = MESSAGE \<and> f_binary fr)
          \<and> int (length (buffers p) + length frs) < attachments p \<longrightarrow>
          on_frames E frs s =
            Inr (s\<lparr>packet := Some (p\<lparr>buffers := buffers p @ map (f_data \<circ> snd) frs\<rparr>)\<rparr>))
     \<and> ((\<forall>(t, fr) \<in> set frs. f_type fr = MESSAGE \<and> f_binary fr) \<and> frs \<noteq> []
          \<and> int (length (buffers p) + length frs) = attachments p \<longrightarrow>
          on_frames E frs s =
            (case handlePacket E (p\<lparr>buffers := buffers p @ map (f_data \<circ> snd) frs\<rparr>)
                    (s\<lparr>packet := None\<rparr>) of
               Inl (e, t) \<Rightarrow> emit E ''error'' (Some e) t
             | Inr t \<Rightarrow> Inr t)))
  \<and> (packet s = None \<and> \<not> f_binary fr \<and> Packet_fromString E (f_data fr) = Inr q \<longrightarrow>
       handleMessage E fr s =
         (if attachments q > 0 then Inr (s\<lparr>packet := Some q\<rparr>) else handlePacket E q s))"
proof -
  have a: "f_type fr = MESSAGE \<longrightarrow> handleFrame E now fr s = handleMessage E fr s"
    by (simp add: handleFrame_def)
  have b: "packet s = Some p \<Longrightarrow> \<not> f_binary fr \<Longrightarrow>
      handleMessage E fr s = Inl (Error ''Received non-binary frame as attachment.'' [], s)"
    by (simp add: handleMessage_def)
  have c: "packet s = None \<and> \<not> f_binary fr \<and> Packet_fromString E (f_data fr) = Inr q \<longrightarrow>
       handleMessage E fr s =
         (if attachments q > 0 then Inr (s\<lparr>packet := Some q\<rparr>) else handlePacket E q s)"
    by (simp add: handleMessage_def)
  show ?thesis
    using a b c handleMessage_attach [of s p fr E] handleMessage_complete [of s p fr E]
      on_frames_attach [of s p frs E] on_frames_reassemble [of s p frs E]
    by blast
qed


theorem C6_reassembly_witness:
  "handleMessage example_env (text_frame ''bin'') open_Socket = Inr reassembling_Socket
   \<and> on_frames example_env [(2, binary_frame [1])] reassembling_Socket =
       Inr (open_Socket\<lparr>packet := Some (bin_packet\<lparr>buffers := [JBuf [1]]\<rparr>)\<rparr>)
   \<and> on_frames example_env [(2, binary_frame [1]), (3, binary_frame [2])] reassembling_Socket =
       Inr (open_Socket\<lparr>out := [EventsEmit [JStr ''bin'', JBuf [1], JBuf [2]]]\<rparr>)
   \<and> handleMessage example_env (text_frame ''bin'') reassembling_Socket =
       Inl (Error ''Received non-binary frame as attachment.'' [], reassembling_Socket)"
proof -
  note C6 = C6_reassembly [where E = example_env and now = 0]
  have st: "packet open_Socket = None" "packet reassembling_Socket = Some bin_packet"
    "buffers bin_packet = []" "attachments bin_packet = 2"
    "reassembling_Socket\<lparr>packet := None\<rparr> = open_Socket"
    "reassembling_Socket\<lparr>packet := Some q\<rparr> = open_Socket\<lparr>packet := Some q\<rparr>"
    "open_Socket\<lparr>packet := Some bin_packet\<rparr> = reassembling_Socket"
    "out open_Socket = []"
    for q
    by (simp_all add: reassembling_Socket_def open_Socket_def connecting_Socket_def
          new_Socket_def bin_packet_def)
  have fr: "\<not> f_binary (text_frame ''bin'')"
    "Packet_fromString example_env (f_data (text_frame ''bin'')) = Inr bin_packet"
    "f_type (binary_frame b) = MESSAGE" "f_binary (binary_frame b)"
    "f_data (binary_frame b) = JBuf b" for b
    by (simp_all add: text_frame_def binary_frame_def example_env_def bin_packet_def)
  have a1: "handleMessage example_env (text_frame ''bin'') open_Socket = Inr reassembling_Socket"
    using C6 [where s = open_Socket and fr = "text_frame ''bin''" and q = bin_packet]
    by (simp (no_asm_use) add: st fr) blast
  have a2: "on_frames example_env [(2, binary_frame [1])] reassembling_Socket =
       Inr (open_Socket\<lparr>packet := Some (bin_packet\<lparr>buffers := [JBuf [1]]\<rparr>)\<rparr>)"
    using C6 [where s = reassembling_Socket and p = bin_packet and frs = "[(2, binary_frame [1])]"]
    by (simp (no_asm_use) add: st fr) blast
  have d: "handlePacket example_env (bin_packet\<lparr>buffers := [JBuf [1], JBuf [2]]\<rparr>) open_Socket =
      Inr (open_Socket\<lparr>out := [EventsEmit [JStr ''bin'', JBuf [1], JBuf [2]]]\<rparr>)"
    by (simp add: handlePacket_def handleEvent_def events_emit_def do_effect_def bin_packet_def
          example_env_def open_Socket_def connecting_Socket_def new_Socket_def)
  have a3: "on_frames example_env [(2, binary_frame [1]), (3, binary_frame [2])] reassembling_Socket =
       Inr (open_Socket\<lparr>out := [EventsEmit [JStr ''bin'', JBuf [1], JBuf [2]]]\<rparr>)"
    using C6 [where s = reassembling_Socket and p = bin_packet
                and frs = "[(2, binary_frame [1]), (3, binary_frame [2])]"]
    by (simp (no_asm_use) add: st fr d) blast
  have a4: "handleMessage example_env (text_frame ''bin'') reassembling_Socket =
       Inl (Error ''Received non-binary frame as attachment.'' [], reassembling_Socket)"
    using C6 [where s = reassembling_Socket and p = bin_packet and fr = "text_frame ''bin''"]
    by (simp (no_asm_use) add: st fr) blast
  show ?thesis
    using a1 a2 a3 a4 by blast
qed

end
